theory Spec2Isabelle
  imports Main
begin

section \<open>Exceptions, logging and the result monad\<close>

text \<open>
  Every exception value modelled here is an instance of Python's \<^verbatim>\<open>Exception\<close>, which is
  what the handlers of the source (\<^verbatim>\<open>except Exception\<close>) catch. System-exiting
  exceptions (\<^verbatim>\<open>KeyboardInterrupt\<close>, \<^verbatim>\<open>SystemExit\<close>) are outside the model.
\<close>

datatype exc =
    PyException string
  | AttributeError string
  | KeyError string
  | TypeError
  | NotFoundError
  | RecursionError
  | LibraryError string
  | HTTPException nat string

datatype level = INFO | WARNING | ERROR

type_synonym log_entry = "level \<times> string"

section \<open>The browser engine as the web driver sees it\<close>

text \<open>
  The automation library is external. Its state is a store of engines, browsers, contexts
  and pages, addressed by handles that are allocated from one counter, so a handle
  returned by the library is distinct from every handle returned before (Python object
  identity). Every library call that talks to the browser may raise: the \<open>faults\<close>
  schedule says, for the n-th such call of the process, whether it raises and what.
\<close>

record launch_options =
  headless :: bool
  args :: "string list"
  env_vars :: "(string \<times> string) list"

record context_options =
  locale_opt :: "string option"
  timezone_opt :: "string option"

record browser_rec =
  b_engine :: nat
  b_options :: launch_options
  b_connected :: bool

record context_rec =
  c_browser :: nat
  c_options :: context_options

record page_rec =
  p_browser :: nat
  p_options :: context_options
  p_closed :: bool
  p_viewport :: "nat \<times> nat"

text \<open>
  A \<^verbatim>\<open>WebDriver\<close> object holds the attributes the class assigns through \<^verbatim>\<open>self\<close>; an
  attribute that was never assigned is \<open>None\<close> here and reading it raises
  \<^verbatim>\<open>AttributeError\<close>.
\<close>

record wd_obj =
  attr_browser :: "nat option"
  attr_page :: "nat option"
  attr_playwright :: "nat option"

record world =
  wd_instance :: "nat option"
  objs :: "nat \<rightharpoonup> wd_obj"
  next_ref :: nat
  engines :: "nat \<rightharpoonup> bool"
  browsers :: "nat \<rightharpoonup> browser_rec"
  contexts :: "nat \<rightharpoonup> context_rec"
  pages :: "nat \<rightharpoonup> page_rec"
  next_handle :: nat
  faults :: "nat \<Rightarrow> exc option"
  calls :: nat
  logs :: "log_entry list"
  host_locale :: "string option \<times> string option"
  host_timezone :: string
  display_env :: "string option"

text \<open>
  A statement of the source is a function from the state to a result and the new state;
  the result is \<open>Inl e\<close> when the statement raises \<open>e\<close>.
\<close>

type_synonym ('s, 'a) st = "'s \<Rightarrow> (exc + 'a) \<times> 's"

type_synonym 'a py = "(world, 'a) st"

definition return_py :: "'a \<Rightarrow> ('s, 'a) st" where
  "return_py x w = (Inr x, w)"

definition raise_py :: "exc \<Rightarrow> ('s, 'a) st" where
  "raise_py e w = (Inl e, w)"

definition bind_py :: "('s, 'a) st \<Rightarrow> ('a \<Rightarrow> ('s, 'b) st) \<Rightarrow> ('s, 'b) st" where
  "bind_py m f w = (case m w of (Inl e, w') \<Rightarrow> (Inl e, w') | (Inr x, w') \<Rightarrow> f x w')"

definition try_except :: "('s, 'a) st \<Rightarrow> (exc \<Rightarrow> ('s, 'a) st) \<Rightarrow> ('s, 'a) st" where
  "try_except m h w = (case m w of (Inl e, w') \<Rightarrow> h e w' | (Inr x, w') \<Rightarrow> (Inr x, w'))"

definition logger :: "level \<Rightarrow> string \<Rightarrow> unit py" where
  "logger l msg w = (Inr (), w\<lparr>logs := logs w @ [(l, msg)]\<rparr>)"

subsection \<open>Library calls\<close>

definition lib_call :: "unit py" where
  "lib_call w =
     (case faults w (calls w) of
        None \<Rightarrow> (Inr (), w\<lparr>calls := Suc (calls w)\<rparr>)
      | Some e \<Rightarrow> (Inl e, w\<lparr>calls := Suc (calls w)\<rparr>))"

definition sync_playwright_start :: "nat py" where
  "sync_playwright_start =
     bind_py lib_call (\<lambda>_ w.
       (Inr (next_handle w),
        w\<lparr>engines := (engines w)(next_handle w \<mapsto> True),
          next_handle := Suc (next_handle w)\<rparr>))"

definition chromium_launch :: "nat \<Rightarrow> launch_options \<Rightarrow> nat py" where
  "chromium_launch eng opts =
     bind_py lib_call (\<lambda>_ w.
       if engines w eng = Some True then
         (Inr (next_handle w),
          w\<lparr>browsers := (browsers w)(next_handle w \<mapsto>
                 \<lparr>b_engine = eng, b_options = opts, b_connected = True\<rparr>),
            next_handle := Suc (next_handle w)\<rparr>)
       else (Inl (LibraryError ''Playwright is not running''), w))"

definition browser_is_connected :: "world \<Rightarrow> nat \<Rightarrow> bool" where
  "browser_is_connected w b =
     (case browsers w b of None \<Rightarrow> False | Some br \<Rightarrow> b_connected br)"

definition new_context :: "nat \<Rightarrow> context_options \<Rightarrow> nat py" where
  "new_context b copts =
     bind_py lib_call (\<lambda>_ w.
       if browser_is_connected w b then
         (Inr (next_handle w),
          w\<lparr>contexts := (contexts w)(next_handle w \<mapsto> \<lparr>c_browser = b, c_options = copts\<rparr>),
            next_handle := Suc (next_handle w)\<rparr>)
       else (Inl (LibraryError ''Browser has been closed''), w))"

text \<open>
  \<^verbatim>\<open>browser.new_page()\<close> opens the page in a context of its own, made from the options
  passed to \<^verbatim>\<open>new_page\<close> itself; the library's default viewport is 1280x720.
\<close>

definition new_page :: "nat \<Rightarrow> context_options \<Rightarrow> nat py" where
  "new_page b copts =
     bind_py lib_call (\<lambda>_ w.
       if browser_is_connected w b then
         (Inr (next_handle w),
          w\<lparr>pages := (pages w)(next_handle w \<mapsto>
                 \<lparr>p_browser = b, p_options = copts, p_closed = False, p_viewport = (1280, 720)\<rparr>),
            next_handle := Suc (next_handle w)\<rparr>)
       else (Inl (LibraryError ''Browser has been closed''), w))"

definition is_closed :: "world \<Rightarrow> nat \<Rightarrow> bool" where
  "is_closed w p = (case pages w p of None \<Rightarrow> True | Some pg \<Rightarrow> p_closed pg)"

definition set_viewport_size :: "nat \<Rightarrow> nat \<times> nat \<Rightarrow> unit py" where
  "set_viewport_size p size_wh =
     bind_py lib_call (\<lambda>_ w.
       case pages w p of
         None \<Rightarrow> (Inl (LibraryError ''Target page has been closed''), w)
       | Some pg \<Rightarrow>
           if p_closed pg then (Inl (LibraryError ''Target page has been closed''), w)
           else (Inr (), w\<lparr>pages := (pages w)(p \<mapsto> pg\<lparr>p_viewport := size_wh\<rparr>)\<rparr>))"

definition page_close :: "nat \<Rightarrow> unit py" where
  "page_close p =
     bind_py lib_call (\<lambda>_ w.
       case pages w p of
         None \<Rightarrow> (Inr (), w)
       | Some pg \<Rightarrow> (Inr (), w\<lparr>pages := (pages w)(p \<mapsto> pg\<lparr>p_closed := True\<rparr>)\<rparr>))"

definition close_pages_of :: "nat \<Rightarrow> (nat \<rightharpoonup> page_rec) \<Rightarrow> (nat \<rightharpoonup> page_rec)" where
  "close_pages_of b ps =
     (\<lambda>p. case ps p of
            None \<Rightarrow> None
          | Some pg \<Rightarrow> Some (if p_browser pg = b then pg\<lparr>p_closed := True\<rparr> else pg))"

definition browser_close :: "nat \<Rightarrow> unit py" where
  "browser_close b =
     bind_py lib_call (\<lambda>_ w.
       case browsers w b of
         None \<Rightarrow> (Inr (), w)
       | Some br \<Rightarrow>
           (Inr (), w\<lparr>browsers := (browsers w)(b \<mapsto> br\<lparr>b_connected := False\<rparr>),
                      pages := close_pages_of b (pages w)\<rparr>))"

definition playwright_stop :: "nat \<Rightarrow> unit py" where
  "playwright_stop eng =
     bind_py lib_call (\<lambda>_ w. (Inr (), w\<lparr>engines := (engines w)(eng \<mapsto> False)\<rparr>))"

section \<open>webdriver.py: the WebDriver singleton\<close>

subsection \<open>Attribute access\<close>

definition get_browser :: "nat \<Rightarrow> nat py" where
  "get_browser self w =
     (case objs w self of
        None \<Rightarrow> (Inl (AttributeError ''browser''), w)
      | Some ob \<Rightarrow>
          (case attr_browser ob of
             None \<Rightarrow> (Inl (AttributeError ''browser''), w)
           | Some b \<Rightarrow> (Inr b, w)))"

definition get_page :: "nat \<Rightarrow> nat py" where
  "get_page self w =
     (case objs w self of
        None \<Rightarrow> (Inl (AttributeError ''page''), w)
      | Some ob \<Rightarrow>
          (case attr_page ob of
             None \<Rightarrow> (Inl (AttributeError ''page''), w)
           | Some p \<Rightarrow> (Inr p, w)))"

definition get_playwright :: "nat \<Rightarrow> nat py" where
  "get_playwright self w =
     (case objs w self of
        None \<Rightarrow> (Inl (AttributeError ''playwright''), w)
      | Some ob \<Rightarrow>
          (case attr_playwright ob of
             None \<Rightarrow> (Inl (AttributeError ''playwright''), w)
           | Some e \<Rightarrow> (Inr e, w)))"

definition set_browser :: "nat \<Rightarrow> nat \<Rightarrow> unit py" where
  "set_browser self b w =
     (case objs w self of
        None \<Rightarrow> (Inl (AttributeError ''browser''), w)
      | Some ob \<Rightarrow> (Inr (), w\<lparr>objs := (objs w)(self \<mapsto> ob\<lparr>attr_browser := Some b\<rparr>)\<rparr>))"

definition set_page :: "nat \<Rightarrow> nat \<Rightarrow> unit py" where
  "set_page self p w =
     (case objs w self of
        None \<Rightarrow> (Inl (AttributeError ''page''), w)
      | Some ob \<Rightarrow> (Inr (), w\<lparr>objs := (objs w)(self \<mapsto> ob\<lparr>attr_page := Some p\<rparr>)\<rparr>))"

subsection \<open>createDriver\<close>

definition getenv :: "world \<Rightarrow> string \<Rightarrow> string" where
  "getenv w dflt = (case display_env w of None \<Rightarrow> dflt | Some d \<Rightarrow> d)"

definition launch_opts :: "world \<Rightarrow> launch_options" where
  "launch_opts w =
     \<lparr>headless = False,
      args = [''--no-sandbox'',
              ''--disable-setuid-sandbox'',
              ''--disable-gpu'',
              ''--disable-dev-shm-usage'',
              ''--remote-debugging-port=9222'',
              ''--disable-web-security'',
              ''--allow-running-insecure-content'',
              ''--display='' @ getenv w '':99''],
      env_vars = [(''DISPLAY'', getenv w '':99'')]\<rparr>"

definition no_options :: context_options where
  "no_options = \<lparr>locale_opt = None, timezone_opt = None\<rparr>"

text \<open>
  \<^verbatim>\<open>system_locale\<close> is the pair read from the host, or the string \<^verbatim>\<open>"en-US"\<close> when the
  pair's language is missing. Neither it nor \<^verbatim>\<open>timezone_id\<close> is read again in the source;
  \<^verbatim>\<open>context\<close> is bound and never read either.
\<close>

definition system_locale_of :: "world \<Rightarrow> (string option \<times> string option) + string" where
  "system_locale_of w =
     (if fst (host_locale w) = None then Inr ''en-US'' else Inl (host_locale w))"

definition createDriver :: "nat \<Rightarrow> string list \<Rightarrow> unit py" where
  "createDriver self arguments w =
     (let timezone_id = host_timezone w;
          system_locale = system_locale_of w
      in try_except
           (bind_py (logger INFO ''Starting Playwright...'') (\<lambda>_.
            bind_py sync_playwright_start (\<lambda>playwright.
            bind_py (logger INFO ''Launching Chromium browser...'') (\<lambda>_.
            bind_py (\<lambda>w'. chromium_launch playwright (launch_opts w') w') (\<lambda>browser.
            bind_py (logger INFO ''Creating new browser context...'') (\<lambda>_.
            bind_py (new_context browser no_options) (\<lambda>context.
            bind_py (logger INFO ''Opening new page...'') (\<lambda>_.
            bind_py (set_browser self browser) (\<lambda>_.
            bind_py (new_page browser no_options) (\<lambda>page.
            bind_py (set_page self page) (\<lambda>_.
            bind_py (get_page self) (\<lambda>pg.
            bind_py (set_viewport_size pg (960, 1080)) (\<lambda>_.
            logger INFO ''Browser instance created successfully.'')))))))))))))
           (\<lambda>e. bind_py (logger ERROR ''Failed to create browser instance.'') (\<lambda>_. raise_py e))
           w)"

subsection \<open>Construction and the singleton\<close>

definition init_WebDriver :: "nat \<Rightarrow> string list \<Rightarrow> unit py" where
  "init_WebDriver self arguments w =
     (if wd_instance w \<noteq> None then (Inl (PyException ''This class is a singleton!''), w)
      else createDriver self arguments (w\<lparr>wd_instance := Some self\<rparr>))"

definition new_WebDriver :: "string list \<Rightarrow> nat py" where
  "new_WebDriver arguments w =
     (let self = next_ref w;
          w1 = w\<lparr>objs := (objs w)(self \<mapsto>
                     \<lparr>attr_browser = None, attr_page = None, attr_playwright = None\<rparr>),
                 next_ref := Suc (next_ref w)\<rparr>
      in bind_py (init_WebDriver self arguments) (\<lambda>_. return_py self) w1)"

definition getInstance :: "string list \<Rightarrow> nat py" where
  "getInstance arguments w =
     (case wd_instance w of
        None \<Rightarrow>
          bind_py (new_WebDriver arguments) (\<lambda>r w'. (Inr r, w'\<lparr>wd_instance := Some r\<rparr>)) w
      | Some r \<Rightarrow> (Inr r, w))"

subsection \<open>getDriver, closeDriver, closeCurrentTab\<close>

definition getDriver :: "nat \<Rightarrow> nat py" where
  "getDriver self = get_page self"

definition closeDriver :: "nat \<Rightarrow> unit py" where
  "closeDriver self =
     try_except
       (bind_py (get_browser self) (\<lambda>b.
        bind_py (browser_close b) (\<lambda>_.
        bind_py (get_playwright self) (\<lambda>pw.
        bind_py (playwright_stop pw) (\<lambda>_.
        logger INFO ''Browser instance closed successfully.'')))))
       (\<lambda>e. bind_py (logger ERROR ''Failed to close browser instance.'') (\<lambda>_. raise_py e))"

text \<open>
  In the guard of \<^verbatim>\<open>closeCurrentTab\<close>, \<^verbatim>\<open>self.page\<close> is a page object whenever it is
  assigned, and a page object is true; so the guard is decided by \<^verbatim>\<open>is_closed()\<close>.
\<close>

definition closeCurrentTab :: "nat \<Rightarrow> unit py" where
  "closeCurrentTab self =
     bind_py (get_page self) (\<lambda>p w.
       if \<not> is_closed w p then
         try_except
           (bind_py (page_close p) (\<lambda>_.
            bind_py (get_browser self) (\<lambda>b.
            bind_py (new_page b no_options) (\<lambda>p'.
            bind_py (set_page self p') (\<lambda>_.
            bind_py (get_page self) (\<lambda>pg.
            bind_py (set_viewport_size pg (960, 1080)) (\<lambda>_.
            logger INFO ''Current tab closed successfully.'')))))))
           (\<lambda>e. bind_py (logger ERROR ''Failed to close current tab.'') (\<lambda>_. raise_py e))
           w
       else (Inr (), w))"

text \<open>The state of a process in which no web driver has been constructed yet.\<close>

definition fresh_process :: world where
  "fresh_process =
     \<lparr>wd_instance = None, objs = Map.empty, next_ref = 0,
      engines = Map.empty, browsers = Map.empty, contexts = Map.empty, pages = Map.empty,
      next_handle = 0, faults = (\<lambda>_. None), calls = 0, logs = [],
      host_locale = (None, None), host_timezone = ''Europe/Paris'', display_env = None\<rparr>"

definition viewport_of :: "world \<Rightarrow> nat \<Rightarrow> (nat \<times> nat) option" where
  "viewport_of w p = map_option p_viewport (pages w p)"

text \<open>
  The active state of the session: the singleton is set, both attributes are assigned,
  the browser is connected, and the current page is a handle the library gave out.
\<close>

definition active :: "nat \<Rightarrow> world \<Rightarrow> bool" where
  "active self w =
     (wd_instance w = Some self \<and>
      (case objs w self of
         None \<Rightarrow> False
       | Some ob \<Rightarrow>
           (case attr_browser ob of
              None \<Rightarrow> False
            | Some b \<Rightarrow>
                (case attr_page ob of
                   None \<Rightarrow> False
                 | Some p \<Rightarrow> browser_is_connected w b \<and> p < next_handle w))))"

text \<open>Two worlds the examples further down run in: a session just built in a fresh process, and
  the same session after its page was closed behind the driver's back.\<close>

definition session_world :: world where
  "session_world = snd (getInstance [] fresh_process)"

definition closed_out_of_band :: world where
  "closed_out_of_band = snd (page_close 3 session_world)"

section \<open>GetConfig.py: loading the model configuration\<close>

type_synonym config = "string \<rightharpoonup> string"

text \<open>
  The object \<^verbatim>\<open>GetConfig()\<close> builds: \<^verbatim>\<open>self.api_key\<close> and \<^verbatim>\<open>self.config_list\<close>, the
  latter a dictionary with the one key \<^verbatim>\<open>'config_list'\<close>.
\<close>

record getconfig =
  api_key :: string
  config_list :: "string \<rightharpoonup> config list"

text \<open>
  The process environment and the library's \<^verbatim>\<open>config_list_from_json\<close> are inputs: the
  loader is given the path and the filter dictionary and returns the filtered list, or
  raises.
\<close>

type_synonym json_loader = "string \<Rightarrow> (string \<times> string) list \<Rightarrow> exc + config list"

definition environ_get :: "(string \<rightharpoonup> string) \<Rightarrow> string \<Rightarrow> string \<Rightarrow> string" where
  "environ_get environ k dflt = (case environ k of None \<Rightarrow> dflt | Some v \<Rightarrow> v)"

definition enrich :: "string \<Rightarrow> config list \<Rightarrow> config list" where
  "enrich key cl = map (\<lambda>c. c(''api_key'' \<mapsto> key)) cl"

text \<open>
  \<^verbatim>\<open>load_and_enrich_config_list\<close>: the \<^verbatim>\<open>try\<close> body, then the handler that replaces any
  exception by the empty list. The log is threaded through.
\<close>

definition load_and_enrich_body ::
    "json_loader \<Rightarrow> string \<Rightarrow> (log_entry list, config list) st" where
  "load_and_enrich_body loader key =
     (\<lambda>lg. case loader ''OAI_CONFIG_LIST'' [(''model'', ''gpt-4-turbo-preview'')] of
             Inl e \<Rightarrow> (Inl e, lg)
           | Inr cl \<Rightarrow>
               (Inr (enrich key cl),
                lg @ [(INFO, ''Config list loaded successfully''),
                      (INFO, ''Config list enriched with API key'')]))"

definition load_and_enrich_config_list ::
    "json_loader \<Rightarrow> string \<Rightarrow> (log_entry list, string \<rightharpoonup> config list) st" where
  "load_and_enrich_config_list loader key =
     bind_py
       (try_except (load_and_enrich_body loader key)
          (\<lambda>e lg. (Inr [], lg @ [(ERROR, ''Failed to load or enrich the config list.'')])))
       (\<lambda>cl. return_py [''config_list'' \<mapsto> cl])"

definition GetConfig_init ::
    "(string \<rightharpoonup> string) \<Rightarrow> json_loader \<Rightarrow> (log_entry list, getconfig) st" where
  "GetConfig_init environ loader lg =
     (let lg1 = lg @ [(INFO, ''Initializing GetConfig class'')];
          key = environ_get environ ''OPENAI_API_KEY'' [];
          lg2 = (if key = [] then
                   lg1 @ [(ERROR, ''OPENAI_API_KEY not found in environment variables'')]
                 else lg1)
      in bind_py (load_and_enrich_config_list loader key)
           (\<lambda>cfg. return_py \<lparr>api_key = key, config_list = cfg\<rparr>) lg2)"

section \<open>oai_agent.py: the orchestrator and the transport adapters\<close>

subsection \<open>Messages and the termination predicate\<close>

text \<open>The values a message dictionary holds under a key.\<close>

datatype pyval = PStr string | PNone | PList "pyval list"

type_synonym msg = "string \<rightharpoonup> pyval"

text \<open>Python's \<^verbatim>\<open>needle in haystack\<close> on two strings: a substring test.\<close>

fun str_contains :: "string \<Rightarrow> string \<Rightarrow> bool" where
  "str_contains needle [] = (needle = [])"
| "str_contains needle (c # cs) =
     (take (length needle) (c # cs) = needle \<or> str_contains needle cs)"

text \<open>
  \<^verbatim>\<open>lambda msg: "TERMINATE" in msg["content"]\<close>: a missing key raises \<^verbatim>\<open>KeyError\<close>,
  \<^verbatim>\<open>None\<close> raises \<^verbatim>\<open>TypeError\<close>, a list is searched for an equal element.
\<close>

definition is_termination_msg :: "msg \<Rightarrow> exc + bool" where
  "is_termination_msg m =
     (case m ''content'' of
        None \<Rightarrow> Inl (KeyError ''content'')
      | Some (PStr s) \<Rightarrow> Inr (str_contains ''TERMINATE'' s)
      | Some PNone \<Rightarrow> Inl TypeError
      | Some (PList xs) \<Rightarrow> Inr (PStr ''TERMINATE'' \<in> set xs))"

subsection \<open>The collaborators\<close>

record oai_config =
  oc_config_list :: "config list"
  oc_assistant_id :: string
  oc_stream :: "bool option"

record gpt_agent =
  g_name :: string
  g_instructions :: string
  g_llm_config :: oai_config
  g_function_map :: "string list"

record user_proxy =
  up_name :: string
  up_is_termination_msg :: "msg \<Rightarrow> exc + bool"
  up_human_input_mode :: string
  up_code_execution_config :: "(string \<times> string) list"

type_synonym chat_result = string

text \<open>
  What oai_agent.py calls and does not define: the identity store
  (\<^verbatim>\<open>load_assistant_id\<close>, \<^verbatim>\<open>create_agent\<close>), the agent library (the two constructors,
  \<^verbatim>\<open>register_function\<close>, \<^verbatim>\<open>initiate_chat\<close>), the websocket, the process environment
  and the interpreter's recursion limit, counted in nested calls of \<^verbatim>\<open>configure_agent\<close>
  that can run their \<^verbatim>\<open>try\<close> body. Each call acts on the outside state \<open>'s\<close> and may
  raise. Of an exception the model keeps the class and the data handlers tell apart, not
  the message its raiser gave it: the text \<^verbatim>\<open>str(e)\<close> that the log lines embed is an
  input too, \<open>exception_str\<close>.
\<close>

record 's deps =
  os_environ :: "'s \<Rightarrow> string \<rightharpoonup> string"
  config_list_from_json :: "'s \<Rightarrow> json_loader"
  default_system_message :: string
  load_assistant_id :: "string \<Rightarrow> ('s, string) st"
  GPTAssistantAgent :: "string \<Rightarrow> string \<Rightarrow> oai_config \<Rightarrow> ('s, unit) st"
  create_agent :: "string \<Rightarrow> ('s, unit) st"
  register_function :: "gpt_agent \<Rightarrow> string list \<Rightarrow> ('s, unit) st"
  UserProxyAgent :: "user_proxy \<Rightarrow> ('s, unit) st"
  initiate_chat :: "user_proxy \<Rightarrow> gpt_agent \<Rightarrow> string \<Rightarrow> ('s, chat_result) st"
  websocket_accept :: "('s, unit) st"
  iostream_input :: "('s, string) st"
  iostream_output :: "chat_result \<Rightarrow> ('s, unit) st"
  recursion_limit :: nat
  exception_str :: "exc \<Rightarrow> string"

text \<open>
  The state oai_agent.py runs in: the outside state, the log, and the frames that
  completed calls of \<^verbatim>\<open>iostream.output\<close> have sent (the source hands the iostream to
  nothing else). \<^verbatim>\<open>print\<close> writes to the standard output only, which is not part of
  the state.
\<close>

record 's agent_state =
  outside :: 's
  alogs :: "log_entry list"
  frames_out :: "chat_result list"

definition outside_call :: "('s, 'a) st \<Rightarrow> ('s agent_state, 'a) st" where
  "outside_call f s = (case f (outside s) of (r, out') \<Rightarrow> (r, s\<lparr>outside := out'\<rparr>))"

definition alogger :: "level \<Rightarrow> string \<Rightarrow> ('s agent_state, unit) st" where
  "alogger l m s = (Inr (), s\<lparr>alogs := alogs s @ [(l, m)]\<rparr>)"

definition GetConfig :: "'s deps \<Rightarrow> ('s agent_state, getconfig) st" where
  "GetConfig d s =
     (case GetConfig_init (os_environ d (outside s)) (config_list_from_json d (outside s))
             (alogs s) of
        (r, lg) \<Rightarrow> (r, s\<lparr>alogs := lg\<rparr>))"

definition dict_get :: "(string \<rightharpoonup> 'a) \<Rightarrow> string \<Rightarrow> ('s, 'a) st" where
  "dict_get m k = (case m k of None \<Rightarrow> raise_py (KeyError k) | Some v \<Rightarrow> return_py v)"

subsection \<open>configure_agent\<close>

text \<open>The \<^verbatim>\<open>try\<close> body of \<^verbatim>\<open>configure_agent\<close>: one resolution of the identity.\<close>

definition configure_attempt ::
    "'s deps \<Rightarrow> string \<Rightarrow> bool \<Rightarrow> ('s agent_state, gpt_agent) st" where
  "configure_attempt d assistant_type stream =
     bind_py (alogger INFO ''Configuring GPT Assistant Agent...'') (\<lambda>_.
     bind_py (outside_call (load_assistant_id d assistant_type)) (\<lambda>assistant_id.
     bind_py (GetConfig d) (\<lambda>gc.
     bind_py (dict_get (config_list gc) ''config_list'') (\<lambda>cl.
     (let oai = \<lparr>oc_config_list = cl, oc_assistant_id = assistant_id,
                 oc_stream = (if stream then Some True else None)\<rparr>
      in bind_py (outside_call
                    (GPTAssistantAgent d assistant_type (default_system_message d) oai)) (\<lambda>_.
         bind_py (alogger INFO ''GPT Assistant Agent configured.'') (\<lambda>_.
         return_py \<lparr>g_name = assistant_type, g_instructions = default_system_message d,
                    g_llm_config = oai, g_function_map = []\<rparr>)))))))"

text \<open>
  \<^verbatim>\<open>configure_agent\<close> calls itself from its \<^verbatim>\<open>NotFoundError\<close> handler. The first
  argument is the number of nested calls that can still run their \<^verbatim>\<open>try\<close> body. In
  the call that has none left, the interpreter raises \<^verbatim>\<open>RecursionError\<close> inside the
  \<^verbatim>\<open>try\<close> body before a statement of it completes; the handler for \<^verbatim>\<open>Exception\<close>
  logs it and re-raises. An exception raised inside a handler, the re-raised
  \<^verbatim>\<open>RecursionError\<close> of the nested call included, is not caught by the other handler of
  the same \<^verbatim>\<open>try\<close>.
\<close>

fun configure_agent ::
    "nat \<Rightarrow> 's deps \<Rightarrow> string \<Rightarrow> bool \<Rightarrow> ('s agent_state, gpt_agent) st" where
  "configure_agent 0 d assistant_type stream s =
     (case alogger ERROR
             (''Unexpected error during agent configuration: '' @
              exception_str d RecursionError) s of
        (_, s1) \<Rightarrow> (Inl RecursionError, s1))"
| "configure_agent (Suc depth) d assistant_type stream s =
     (case configure_attempt d assistant_type stream s of
        (Inr a, s1) \<Rightarrow> (Inr a, s1)
      | (Inl e, s1) \<Rightarrow>
          if e = NotFoundError then
            (case alogger WARNING ''Assistant not found. Creating new assistant...'' s1 of
               (_, s2) \<Rightarrow>
                 (case outside_call (create_agent d assistant_type) s2 of
                    (Inl e', s3) \<Rightarrow> (Inl e', s3)
                  | (Inr _, s3) \<Rightarrow> configure_agent depth d assistant_type stream s3))
          else
            (case alogger ERROR
                    (''Unexpected error during agent configuration: '' @ exception_str d e) s1 of
               (_, s2) \<Rightarrow> (Inl e, s2)))"

subsection \<open>register_functions, create_user_proxy\<close>

definition function_map :: "string list" where
  "function_map =
     [''analyze_content'', ''click_element'', ''go_back'', ''input_text'',
      ''jump_to_search_engine'', ''read_url'', ''scroll'', ''wait'', ''save_to_file'']"

definition register_functions :: "'s deps \<Rightarrow> gpt_agent \<Rightarrow> ('s agent_state, gpt_agent) st" where
  "register_functions d agent =
     bind_py (alogger INFO ''Registering functions...'') (\<lambda>_.
     bind_py (outside_call (register_function d agent function_map)) (\<lambda>_.
     bind_py (alogger INFO ''Functions registered.'') (\<lambda>_.
     return_py (agent\<lparr>g_function_map := function_map\<rparr>))))"

definition create_user_proxy :: "'s deps \<Rightarrow> ('s agent_state, user_proxy) st" where
  "create_user_proxy d =
     bind_py (alogger INFO ''Creating User Proxy Agent...'') (\<lambda>_.
     (let up = \<lparr>up_name = ''user_proxy'',
                up_is_termination_msg = is_termination_msg,
                up_human_input_mode = ''NEVER'',
                up_code_execution_config = [(''work_dir'', ''coding''), (''use_docker'', ''False'')]\<rparr>
      in bind_py (outside_call (UserProxyAgent d up)) (\<lambda>_.
         bind_py (alogger INFO ''User Proxy Agent created.'') (\<lambda>_.
         return_py up))))"

subsection \<open>The synchronous adapter: POST /get-web-agent-response\<close>

record prompt_request =
  prompt :: string

record json_body =
  response :: chat_result

definition get_response_body ::
    "'s deps \<Rightarrow> prompt_request \<Rightarrow> ('s agent_state, json_body) st" where
  "get_response_body d prompt_request =
     bind_py (configure_agent (recursion_limit d) d ''BrowsingAgent'' False) (\<lambda>gpt_assistant.
     bind_py (register_functions d gpt_assistant) (\<lambda>gpt_assistant'.
     bind_py (create_user_proxy d) (\<lambda>up.
     bind_py (outside_call (initiate_chat d up gpt_assistant' (prompt prompt_request))) (\<lambda>r.
     return_py \<lparr>response = r\<rparr>))))"

definition get_response ::
    "'s deps \<Rightarrow> prompt_request \<Rightarrow> ('s agent_state, json_body) st" where
  "get_response d prompt_request =
     try_except (get_response_body d prompt_request)
       (\<lambda>e. bind_py (alogger ERROR (''An error occurred: '' @ exception_str d e)) (\<lambda>_.
            raise_py (HTTPException 500 ''Internal Server Error'')))"

subsection \<open>The streaming adapter: /ws\<close>

definition send_output :: "'s deps \<Rightarrow> chat_result \<Rightarrow> ('s agent_state, unit) st" where
  "send_output d r =
     bind_py (outside_call (iostream_output d r)) (\<lambda>_ s.
       (Inr (), s\<lparr>frames_out := frames_out s @ [r]\<rparr>))"

definition on_connect_body :: "'s deps \<Rightarrow> ('s agent_state, unit) st" where
  "on_connect_body d =
     bind_py (outside_call (iostream_input d)) (\<lambda>initial_msg.
     bind_py (configure_agent (recursion_limit d) d ''BrowsingAgent'' True) (\<lambda>gpt_assistant.
     bind_py (register_functions d gpt_assistant) (\<lambda>gpt_assistant'.
     bind_py (create_user_proxy d) (\<lambda>up.
     bind_py (outside_call (initiate_chat d up gpt_assistant' initial_msg)) (\<lambda>r.
     send_output d r)))))"

definition on_connect :: "'s deps \<Rightarrow> ('s agent_state, unit) st" where
  "on_connect d = try_except (on_connect_body d) (\<lambda>e. return_py ())"

definition websocket_endpoint :: "'s deps \<Rightarrow> ('s agent_state, unit) st" where
  "websocket_endpoint d = bind_py (outside_call (websocket_accept d)) (\<lambda>_. on_connect d)"

subsection \<open>The retry chain of configure_agent\<close>

text \<open>
  \<open>not_found_created\<close>: from this state, one resolution raises \<^verbatim>\<open>NotFoundError\<close> and the
  creation that follows returns. \<open>retry_state\<close> is the state after that many such rounds.
\<close>

definition after_creation ::
    "'s deps \<Rightarrow> string \<Rightarrow> bool \<Rightarrow> 's agent_state \<Rightarrow> (exc + unit) \<times> 's agent_state" where
  "after_creation d assistant_type stream s =
     outside_call (create_agent d assistant_type)
       (snd (alogger WARNING ''Assistant not found. Creating new assistant...''
               (snd (configure_attempt d assistant_type stream s))))"

definition not_found_created :: "'s deps \<Rightarrow> string \<Rightarrow> bool \<Rightarrow> 's agent_state \<Rightarrow> bool" where
  "not_found_created d assistant_type stream s =
     (fst (configure_attempt d assistant_type stream s) = Inl NotFoundError \<and>
      fst (after_creation d assistant_type stream s) = Inr ())"

primrec retry_state ::
    "'s deps \<Rightarrow> string \<Rightarrow> bool \<Rightarrow> 's agent_state \<Rightarrow> nat \<Rightarrow> 's agent_state" where
  "retry_state d assistant_type stream s 0 = s"
| "retry_state d assistant_type stream s (Suc i) =
     snd (after_creation d assistant_type stream (retry_state d assistant_type stream s i))"

subsection \<open>Example collaborators\<close>

text \<open>
  The outside state of the examples is the number of assistants created so far. With
  \<open>flaky_deps\<close> the oracle knows the assistant only after two creations; the environment
  holds no API key and the configuration file holds one entry.
\<close>

text \<open>
  The texts the exceptions of the examples print as: a \<^verbatim>\<open>KeyError\<close> prints its key in
  quotes, the others print the message chosen here.
\<close>

fun example_str :: "exc \<Rightarrow> string" where
  "example_str (KeyError k) = [CHR 0x27] @ k @ [CHR 0x27]"
| "example_str (PyException m) = m"
| "example_str (AttributeError m) = m"
| "example_str (LibraryError m) = m"
| "example_str (HTTPException c m) = m"
| "example_str TypeError = ''unhashable type''"
| "example_str NotFoundError = ''Error code: 404''"
| "example_str RecursionError = ''maximum recursion depth exceeded''"

definition flaky_deps :: "nat deps" where
  "flaky_deps =
     \<lparr>os_environ = (\<lambda>_. Map.empty),
      config_list_from_json = (\<lambda>_ _ _. Inr [[''model'' \<mapsto> ''gpt-4-turbo-preview'']]),
      default_system_message = ''You are a helpful AI assistant.'',
      load_assistant_id = (\<lambda>_ n. (Inr ''asst_1'', n)),
      GPTAssistantAgent = (\<lambda>_ _ _ n. (if n < 2 then Inl NotFoundError else Inr (), n)),
      create_agent = (\<lambda>_ n. (Inr (), Suc n)),
      register_function = (\<lambda>_ _ n. (Inr (), n)),
      UserProxyAgent = (\<lambda>_ n. (Inr (), n)),
      initiate_chat = (\<lambda>_ _ m n. (Inr (''It is 15 degrees. TERMINATE''), n)),
      websocket_accept = (\<lambda>n. (Inr (), n)),
      iostream_input = (\<lambda>n. (Inr ''find the weather in Paris'', n)),
      iostream_output = (\<lambda>_ n. (Inr (), n)),
      recursion_limit = 1000,
      exception_str = example_str\<rparr>"

text \<open>Variants of \<open>flaky_deps\<close>: the conversation fails; the function registration fails.\<close>

definition broken_chat_deps :: "nat deps" where
  "broken_chat_deps =
     flaky_deps\<lparr>initiate_chat := (\<lambda>_ _ _ n. (Inl (LibraryError ''rate limit exceeded''), n))\<rparr>"

definition no_register_deps :: "nat deps" where
  "no_register_deps =
     flaky_deps\<lparr>register_function := (\<lambda>_ _ n. (Inl TypeError, n))\<rparr>"

definition start_state :: "nat agent_state" where
  "start_state = \<lparr>outside = 0, alogs = [], frames_out = []\<rparr>"

text \<open>The agent that \<open>flaky_deps\<close> resolves, with and without streaming.\<close>

definition browsing_agent :: "bool option \<Rightarrow> gpt_agent" where
  "browsing_agent str =
     \<lparr>g_name = ''BrowsingAgent'', g_instructions = ''You are a helpful AI assistant.'',
      g_llm_config =
        \<lparr>oc_config_list = [[''model'' \<mapsto> ''gpt-4-turbo-preview'', ''api_key'' \<mapsto> []]],
         oc_assistant_id = ''asst_1'', oc_stream = str\<rparr>,
      g_function_map = []\<rparr>"

text \<open>Two more variants: the identity store has no entry; creation fails.\<close>

definition no_store_deps :: "nat deps" where
  "no_store_deps =
     flaky_deps\<lparr>load_assistant_id := (\<lambda>_ n. (Inl (KeyError ''BrowsingAgent''), n))\<rparr>"


text \<open>The request and the user proxy of the examples.\<close>

definition weather_request :: prompt_request where
  "weather_request = \<lparr>prompt = ''find the weather in Paris''\<rparr>"

definition the_user_proxy :: user_proxy where
  "the_user_proxy =
     \<lparr>up_name = ''user_proxy'',
      up_is_termination_msg = is_termination_msg,
      up_human_input_mode = ''NEVER'',
      up_code_execution_config = [(''work_dir'', ''coding''), (''use_docker'', ''False'')]\<rparr>"

section \<open>Properties of the WebDriver singleton\<close>

lemmas py_defs = return_py_def raise_py_def bind_py_def try_except_def logger_def lib_call_def

lemmas lib_defs = sync_playwright_start_def chromium_launch_def new_context_def new_page_def
  set_viewport_size_def page_close_def browser_close_def playwright_stop_def
  browser_is_connected_def is_closed_def

lemmas wd_defs = get_browser_def get_page_def get_playwright_def set_browser_def set_page_def
  createDriver_def init_WebDriver_def new_WebDriver_def getInstance_def getDriver_def
  closeDriver_def closeCurrentTab_def

subsection \<open>What a successful statement tells\<close>

lemma bind_py_InrE:
  assumes "bind_py m f w = (Inr y, w')"
  obtains x w1 where "m w = (Inr x, w1)" "f x w1 = (Inr y, w')"
  using assms by (auto simp: bind_py_def split: prod.splits sum.splits)

lemma try_except_reraise_Inr:
  assumes "try_except m (\<lambda>e. bind_py (logger l msg) (\<lambda>_. raise_py e)) w = (Inr y, w')"
  shows "m w = (Inr y, w')"
  using assms
  by (auto simp: try_except_def bind_py_def logger_def raise_py_def
      split: prod.splits sum.splits)

lemma logger_Inr: "logger l msg w = (Inr u, w') \<Longrightarrow> w' = w\<lparr>logs := logs w @ [(l, msg)]\<rparr>"
  by (simp add: logger_def)

lemma sync_playwright_start_Inr:
  "sync_playwright_start w = (Inr h, w') \<Longrightarrow>
     h = next_handle w \<and>
     w' = w\<lparr>calls := Suc (calls w), engines := (engines w)(next_handle w \<mapsto> True),
            next_handle := Suc (next_handle w)\<rparr>"
  by (auto simp: sync_playwright_start_def bind_py_def lib_call_def split: option.splits)

lemma chromium_launch_Inr:
  "chromium_launch eng opts w = (Inr b, w') \<Longrightarrow>
     b = next_handle w \<and>
     w' = w\<lparr>calls := Suc (calls w),
            browsers := (browsers w)(next_handle w \<mapsto>
                 \<lparr>b_engine = eng, b_options = opts, b_connected = True\<rparr>),
            next_handle := Suc (next_handle w)\<rparr>"
  by (auto simp: chromium_launch_def bind_py_def lib_call_def split: option.splits if_splits)

lemma new_context_Inr:
  "new_context b copts w = (Inr c, w') \<Longrightarrow>
     c = next_handle w \<and> browser_is_connected w b \<and>
     w' = w\<lparr>calls := Suc (calls w),
            contexts := (contexts w)(next_handle w \<mapsto> \<lparr>c_browser = b, c_options = copts\<rparr>),
            next_handle := Suc (next_handle w)\<rparr>"
  by (auto simp: new_context_def bind_py_def lib_call_def browser_is_connected_def
      split: option.splits if_splits)

lemma new_page_Inr:
  "new_page b copts w = (Inr p, w') \<Longrightarrow>
     p = next_handle w \<and> browser_is_connected w b \<and>
     w' = w\<lparr>calls := Suc (calls w),
            pages := (pages w)(next_handle w \<mapsto>
                 \<lparr>p_browser = b, p_options = copts, p_closed = False, p_viewport = (1280, 720)\<rparr>),
            next_handle := Suc (next_handle w)\<rparr>"
  by (auto simp: new_page_def bind_py_def lib_call_def browser_is_connected_def
      split: option.splits if_splits)

lemma set_viewport_size_Inr:
  "set_viewport_size p sz w = (Inr u, w') \<Longrightarrow>
     \<exists>pg. pages w p = Some pg \<and> \<not> p_closed pg \<and>
       w' = w\<lparr>calls := Suc (calls w), pages := (pages w)(p \<mapsto> pg\<lparr>p_viewport := sz\<rparr>)\<rparr>"
  by (auto simp: set_viewport_size_def bind_py_def lib_call_def split: option.splits if_splits)

lemma set_browser_Inr:
  "set_browser self b w = (Inr u, w') \<Longrightarrow>
     \<exists>ob. objs w self = Some ob \<and>
       w' = w\<lparr>objs := (objs w)(self \<mapsto> ob\<lparr>attr_browser := Some b\<rparr>)\<rparr>"
  by (auto simp: set_browser_def split: option.splits)

lemma set_page_Inr:
  "set_page self p w = (Inr u, w') \<Longrightarrow>
     \<exists>ob. objs w self = Some ob \<and>
       w' = w\<lparr>objs := (objs w)(self \<mapsto> ob\<lparr>attr_page := Some p\<rparr>)\<rparr>"
  by (auto simp: set_page_def split: option.splits)

lemma get_page_Inr:
  "get_page self w = (Inr p, w') \<Longrightarrow>
     w' = w \<and> (\<exists>ob. objs w self = Some ob \<and> attr_page ob = Some p)"
  by (auto simp: get_page_def split: option.splits)

text \<open>
  A construction that returns leaves the object with a connected browser launched with
  the fixed options and an open page of viewport 960x1080 whose context was made with no
  locale and no timezone, whatever the host's locale and timezone are; the attribute
  \<^verbatim>\<open>playwright\<close> is as it was.
\<close>

lemma createDriver_Inr:
  assumes "createDriver self a w = (Inr u, w')"
  shows "wd_instance w' = wd_instance w \<and>
         (\<exists>ob ob' b p br pg.
            objs w self = Some ob \<and> objs w' self = Some ob' \<and>
            attr_playwright ob' = attr_playwright ob \<and>
            attr_browser ob' = Some b \<and> attr_page ob' = Some p \<and>
            browser_is_connected w' b \<and> p < next_handle w' \<and>
            browsers w' b = Some br \<and> b_options br = launch_opts w \<and>
            pages w' p = Some pg \<and> \<not> p_closed pg \<and> p_viewport pg = (960, 1080) \<and>
            p_options pg = \<lparr>locale_opt = None, timezone_opt = None\<rparr>)"
proof -
  from assms have
    "(bind_py (logger INFO ''Starting Playwright...'') (\<lambda>_.
      bind_py sync_playwright_start (\<lambda>playwright.
      bind_py (logger INFO ''Launching Chromium browser...'') (\<lambda>_.
      bind_py (\<lambda>w'. chromium_launch playwright (launch_opts w') w') (\<lambda>browser.
      bind_py (logger INFO ''Creating new browser context...'') (\<lambda>_.
      bind_py (new_context browser no_options) (\<lambda>context.
      bind_py (logger INFO ''Opening new page...'') (\<lambda>_.
      bind_py (set_browser self browser) (\<lambda>_.
      bind_py (new_page browser no_options) (\<lambda>page.
      bind_py (set_page self page) (\<lambda>_.
      bind_py (get_page self) (\<lambda>pg.
      bind_py (set_viewport_size pg (960, 1080)) (\<lambda>_.
      logger INFO ''Browser instance created successfully.''))))))))))))) w = (Inr u, w')"
    unfolding createDriver_def Let_def by (rule try_except_reraise_Inr)
  then show ?thesis
    apply (elim bind_py_InrE)
    apply (drule logger_Inr sync_playwright_start_Inr chromium_launch_Inr new_context_Inr
        new_page_Inr set_viewport_size_Inr set_browser_Inr set_page_Inr get_page_Inr)+
    apply (clarsimp simp: browser_is_connected_def launch_opts_def getenv_def no_options_def)
    done
qed

lemma new_WebDriver_Inr:
  assumes "new_WebDriver a w = (Inr r, w')"
  shows "wd_instance w = None \<and> wd_instance w' = Some r \<and> r = next_ref w \<and>
         (\<exists>ob b p. objs w' r = Some ob \<and> attr_playwright ob = None \<and>
            attr_browser ob = Some b \<and> attr_page ob = Some p \<and>
            browser_is_connected w' b \<and> p < next_handle w')"
proof -
  let ?w1 = "w\<lparr>objs := (objs w)(next_ref w \<mapsto>
                 \<lparr>attr_browser = None, attr_page = None, attr_playwright = None\<rparr>),
               next_ref := Suc (next_ref w)\<rparr>"
  from assms have r: "r = next_ref w" and i: "init_WebDriver (next_ref w) a ?w1 = (Inr (), w')"
    by (auto simp: new_WebDriver_def Let_def bind_py_def return_py_def
        split: prod.splits sum.splits)
  from i have n: "wd_instance w = None"
    and c: "createDriver (next_ref w) a (?w1\<lparr>wd_instance := Some (next_ref w)\<rparr>) = (Inr (), w')"
    by (auto simp: init_WebDriver_def split: if_splits)
  from createDriver_Inr [OF c] r n show ?thesis by auto
qed

lemma getInstance_instance: "getInstance a w = (Inr r, w') \<Longrightarrow> wd_instance w' = Some r"
  by (auto simp: getInstance_def bind_py_def split: option.splits prod.splits sum.splits)

text \<open>The first acquisition of a process, when it returns, leaves the session active.\<close>

lemma getInstance_active:
  assumes "wd_instance w = None" "getInstance a w = (Inr r, w')"
  shows "active r w'"
proof -
  from assms obtain w1 where n: "new_WebDriver a w = (Inr r, w1)"
    and w': "w' = w1\<lparr>wd_instance := Some r\<rparr>"
    by (auto simp: getInstance_def bind_py_def split: prod.splits sum.splits)
  from new_WebDriver_Inr [OF n] w' show ?thesis
    by (auto simp: active_def browser_is_connected_def)
qed

text \<open>
  No statement of the class assigns \<^verbatim>\<open>self.playwright\<close>, so \<^verbatim>\<open>closeDriver\<close> on an
  object built by the class never returns: either closing the browser raises, or reading
  the attribute does.
\<close>

lemma closeDriver_never_returns:
  assumes "objs w self = Some ob" "attr_playwright ob = None"
  shows "\<exists>e. fst (closeDriver self w) = Inl e"
  using assms
  by (auto simp: closeDriver_def get_browser_def get_playwright_def browser_close_def
      py_defs split: option.splits prod.splits sum.splits)

subsection \<open>The example worlds, evaluated\<close>

lemma fresh_process_getInstance:
  "getInstance a fresh_process =
     (Inr 0,
      \<lparr>wd_instance = Some 0,
       objs = [0 \<mapsto> \<lparr>attr_browser = Some 1, attr_page = Some 3, attr_playwright = None\<rparr>],
       next_ref = 1,
       engines = [0 \<mapsto> True],
       browsers = [1 \<mapsto> \<lparr>b_engine = 0, b_options = launch_opts fresh_process,
                           b_connected = True\<rparr>],
       contexts = [2 \<mapsto> \<lparr>c_browser = 1, c_options = no_options\<rparr>],
       pages = [3 \<mapsto> \<lparr>p_browser = 1, p_options = no_options, p_closed = False,
                        p_viewport = (960, 1080)\<rparr>],
       next_handle = 4, faults = (\<lambda>_. None), calls = 5,
       logs = [(INFO, ''Starting Playwright...''),
               (INFO, ''Launching Chromium browser...''),
               (INFO, ''Creating new browser context...''),
               (INFO, ''Opening new page...''),
               (INFO, ''Browser instance created successfully.'')],
       host_locale = (None, None), host_timezone = ''Europe/Paris'', display_env = None\<rparr>)"
  by (simp add: py_defs lib_defs wd_defs fresh_process_def Let_def launch_opts_def getenv_def
      numeral_2_eq_2 [symmetric])

lemma session_world_eq:
  "session_world =
     \<lparr>wd_instance = Some 0,
      objs = [0 \<mapsto> \<lparr>attr_browser = Some 1, attr_page = Some 3, attr_playwright = None\<rparr>],
      next_ref = 1,
      engines = [0 \<mapsto> True],
      browsers = [1 \<mapsto> \<lparr>b_engine = 0, b_options = launch_opts fresh_process,
                          b_connected = True\<rparr>],
      contexts = [2 \<mapsto> \<lparr>c_browser = 1, c_options = no_options\<rparr>],
      pages = [3 \<mapsto> \<lparr>p_browser = 1, p_options = no_options, p_closed = False,
                       p_viewport = (960, 1080)\<rparr>],
      next_handle = 4, faults = (\<lambda>_. None), calls = 5,
      logs = [(INFO, ''Starting Playwright...''),
              (INFO, ''Launching Chromium browser...''),
              (INFO, ''Creating new browser context...''),
              (INFO, ''Opening new page...''),
              (INFO, ''Browser instance created successfully.'')],
      host_locale = (None, None), host_timezone = ''Europe/Paris'', display_env = None\<rparr>"
  by (simp add: session_world_def fresh_process_getInstance)

lemma session_world_active: "active 0 session_world"
  by (simp add: session_world_eq active_def browser_is_connected_def)

lemma session_world_page: "getDriver 0 session_world = (Inr 3, session_world)"
  by (simp add: session_world_eq getDriver_def get_page_def)

lemma session_world_open: "\<not> is_closed session_world 3"
  by (simp add: session_world_eq is_closed_def)

lemma session_world_faults: "faults session_world n = None"
  by (simp add: session_world_eq)

lemma closed_out_of_band_eq:
  "closed_out_of_band =
     session_world\<lparr>calls := 6,
       pages := [3 \<mapsto> \<lparr>p_browser = 1, p_options = no_options, p_closed = True,
                        p_viewport = (960, 1080)\<rparr>]\<rparr>"
  by (simp add: closed_out_of_band_def session_world_eq page_close_def py_defs)

lemma closed_out_of_band_active: "active 0 closed_out_of_band"
  by (simp add: closed_out_of_band_eq session_world_eq active_def browser_is_connected_def)

lemma closed_out_of_band_page: "getDriver 0 closed_out_of_band = (Inr 3, closed_out_of_band)"
  by (simp add: closed_out_of_band_eq session_world_eq getDriver_def get_page_def)

lemma closed_out_of_band_closed: "is_closed closed_out_of_band 3"
  by (simp add: closed_out_of_band_eq session_world_eq is_closed_def)

subsection \<open>Resetting the page\<close>

text \<open>
  C1, as the spec states it, fails: when the current page was closed out of band, the
  guard of \<^verbatim>\<open>closeCurrentTab\<close> skips the whole reset, and \<^verbatim>\<open>getDriver\<close> still returns
  the same, closed page.
\<close>

theorem closeCurrentTab_closed_page_counterexample:
  "active 0 closed_out_of_band \<and>
   getDriver 0 closed_out_of_band = (Inr 3, closed_out_of_band) \<and>
   is_closed closed_out_of_band 3 \<and>
   closeCurrentTab 0 closed_out_of_band = (Inr (), closed_out_of_band) \<and>
   fst (getDriver 0 (snd (closeCurrentTab 0 closed_out_of_band))) = Inr 3"
proof -
  have "closeCurrentTab 0 closed_out_of_band = (Inr (), closed_out_of_band)"
    using closed_out_of_band_page closed_out_of_band_closed
    by (simp add: closeCurrentTab_def getDriver_def bind_py_def)
  then show ?thesis
    using closed_out_of_band_active closed_out_of_band_page closed_out_of_band_closed
    by simp
qed

text \<open>
  C1, amended: for a session in the active state whose current page \<open>p\<close> is open, when
  the three library calls of the reset (close, new page, set viewport) do not raise,
  \<^verbatim>\<open>closeCurrentTab\<close> returns, and \<^verbatim>\<open>getDriver\<close> then returns a page distinct from \<open>p\<close>,
  open, with viewport 960x1080, while \<open>p\<close> is closed and the session is still active.
\<close>

theorem closeCurrentTab_then_getDriver:
  assumes "active self w" and "getDriver self w = (Inr p, w)" and "\<not> is_closed w p"
    and "faults w (calls w) = None" and "faults w (Suc (calls w)) = None"
    and "faults w (Suc (Suc (calls w))) = None"
  shows "\<exists>w' p'. closeCurrentTab self w = (Inr (), w') \<and>
           getDriver self w' = (Inr p', w') \<and> p' \<noteq> p \<and>
           is_closed w' p \<and> \<not> is_closed w' p' \<and>
           viewport_of w' p' = Some (960, 1080) \<and> active self w'"
proof -
  from assms(1,2) obtain ob b where ob: "wd_instance w = Some self" "objs w self = Some ob"
      "attr_browser ob = Some b" "attr_page ob = Some p" "browser_is_connected w b"
      "p < next_handle w"
    by (auto simp: active_def getDriver_def get_page_def split: option.splits)
  from assms(3) obtain pg where pg: "pages w p = Some pg" "\<not> p_closed pg"
    by (auto simp: is_closed_def split: option.splits)
  show ?thesis
    using ob pg assms(3-6)
    by (simp add: py_defs lib_defs wd_defs viewport_of_def no_options_def active_def)
qed

theorem closeCurrentTab_then_getDriver_witness:
  "active 0 session_world \<and> getDriver 0 session_world = (Inr 3, session_world) \<and>
   \<not> is_closed session_world 3 \<and>
   (\<exists>w' p'. closeCurrentTab 0 session_world = (Inr (), w') \<and>
      getDriver 0 w' = (Inr p', w') \<and> p' \<noteq> 3 \<and>
      is_closed w' 3 \<and> \<not> is_closed w' p' \<and>
      viewport_of w' p' = Some (960, 1080) \<and> active 0 w')"
  using closeCurrentTab_then_getDriver [OF session_world_active session_world_page
      session_world_open session_world_faults session_world_faults session_world_faults]
    session_world_active session_world_page session_world_open
  by simp

text \<open>The guard of \<^verbatim>\<open>closeCurrentTab\<close>: on a closed page it does nothing at all.\<close>

lemma closeCurrentTab_closed_page:
  assumes "getDriver self w = (Inr p, w)" and "is_closed w p"
  shows "closeCurrentTab self w = (Inr (), w)"
  using assms by (simp add: closeCurrentTab_def getDriver_def bind_py_def)

subsection \<open>The singleton\<close>

text \<open>
  C2: when a call of \<^verbatim>\<open>getInstance\<close> has returned an instance, the next call returns the
  identical instance (and changes nothing); and whenever an instance exists, constructing
  \<^verbatim>\<open>WebDriver\<close> directly raises \<^verbatim>\<open>Exception("This class is a singleton!")\<close> and the
  singleton stays the one it was.
\<close>

theorem getInstance_twice_identical:
  "(getInstance a1 w = (Inr r, w1) \<longrightarrow> getInstance a2 w1 = (Inr r, w1)) \<and>
   (wd_instance v \<noteq> None \<longrightarrow>
      fst (new_WebDriver a v) = Inl (PyException ''This class is a singleton!'') \<and>
      wd_instance (snd (new_WebDriver a v)) = wd_instance v)"
proof (intro conjI impI)
  assume "getInstance a1 w = (Inr r, w1)"
  then have "wd_instance w1 = Some r" by (rule getInstance_instance)
  then show "getInstance a2 w1 = (Inr r, w1)" by (simp add: getInstance_def)
next
  assume "wd_instance v \<noteq> None"
  then show "fst (new_WebDriver a v) = Inl (PyException ''This class is a singleton!'')"
    by (simp add: new_WebDriver_def init_WebDriver_def Let_def bind_py_def)
next
  assume "wd_instance v \<noteq> None"
  then show "wd_instance (snd (new_WebDriver a v)) = wd_instance v"
    by (simp add: new_WebDriver_def init_WebDriver_def Let_def bind_py_def)
qed

theorem getInstance_twice_identical_witness:
  "getInstance [] fresh_process = (Inr 0, session_world) \<and>
   getInstance [''again''] session_world = (Inr 0, session_world) \<and>
   wd_instance session_world \<noteq> None \<and>
   fst (new_WebDriver [] session_world) = Inl (PyException ''This class is a singleton!'') \<and>
   wd_instance (snd (new_WebDriver [] session_world)) = wd_instance session_world"
proof -
  have g: "getInstance [] fresh_process = (Inr 0, session_world)"
    by (simp add: session_world_def fresh_process_getInstance)
  have i: "wd_instance session_world \<noteq> None"
    by (simp add: session_world_eq)
  show ?thesis
    using g i
      getInstance_twice_identical [of "[]" fresh_process 0 session_world "[''again'']"
        session_world "[]"]
    by simp
qed






subsection \<open>Shutdown\<close>

text \<open>
  C6 does not hold of the code. On a session just built, \<^verbatim>\<open>closeDriver\<close> closes the
  browser and then raises \<^verbatim>\<open>AttributeError\<close> when it reads \<^verbatim>\<open>self.playwright\<close>, which
  was never assigned: the engine is still running, and a repeated call raises again.
\<close>

theorem closeDriver_raises_on_session:
  "fst (closeDriver 0 session_world) = Inl (AttributeError ''playwright'') \<and>
   \<not> browser_is_connected (snd (closeDriver 0 session_world)) 1 \<and>
   engines (snd (closeDriver 0 session_world)) 0 = Some True \<and>
   last (logs (snd (closeDriver 0 session_world))) =
     (ERROR, ''Failed to close browser instance.'') \<and>
   fst (closeDriver 0 (snd (closeDriver 0 session_world))) = Inl (AttributeError ''playwright'')"
  by (simp add: session_world_eq closeDriver_def get_browser_def get_playwright_def
      browser_close_def browser_is_connected_def close_pages_of_def py_defs)

subsection \<open>The configuration of the first construction\<close>

text \<open>
  C7 does not hold of the code in its last part. On a host that reports no locale the
  fallback \<^verbatim>\<open>"en-US"\<close> is computed, but the session is built without it: the context and
  the page carry no locale and no timezone. The rest of the fixed configuration is
  applied: not headless, sandbox off, remote-debugging port 9222, viewport 960x1080.
\<close>

theorem createDriver_drops_locale:
  "fst (host_locale fresh_process) = None \<and>
   system_locale_of fresh_process = Inr ''en-US'' \<and>
   getInstance [] fresh_process = (Inr 0, session_world) \<and>
   getDriver 0 session_world = (Inr 3, session_world) \<and>
   map_option p_options (pages session_world 3) =
     Some \<lparr>locale_opt = None, timezone_opt = None\<rparr> \<and>
   map_option c_options (contexts session_world 2) =
     Some \<lparr>locale_opt = None, timezone_opt = None\<rparr> \<and>
   map_option (headless \<circ> b_options) (browsers session_world 1) = Some False \<and>
   map_option (args \<circ> b_options) (browsers session_world 1) =
     Some [''--no-sandbox'', ''--disable-setuid-sandbox'', ''--disable-gpu'',
           ''--disable-dev-shm-usage'', ''--remote-debugging-port=9222'',
           ''--disable-web-security'', ''--allow-running-insecure-content'',
           ''--display=:99''] \<and>
   viewport_of session_world 3 = Some (960, 1080)"
  by (simp add: session_world_def [symmetric] fresh_process_getInstance session_world_page)
    (simp add: session_world_eq fresh_process_def system_locale_of_def no_options_def
      launch_opts_def getenv_def viewport_of_def)

section \<open>Properties of GetConfig\<close>

lemmas st_defs = return_py_def raise_py_def bind_py_def try_except_def

lemma GetConfig_init_eq:
  "GetConfig_init environ loader lg =
     (let key = environ_get environ ''OPENAI_API_KEY'' [];
          lg2 = lg @ [(INFO, ''Initializing GetConfig class'')] @
                  (if key = [] then
                     [(ERROR, ''OPENAI_API_KEY not found in environment variables'')]
                   else [])
      in case loader ''OAI_CONFIG_LIST'' [(''model'', ''gpt-4-turbo-preview'')] of
           Inl e \<Rightarrow>
             (Inr \<lparr>api_key = key, config_list = [''config_list'' \<mapsto> []]\<rparr>,
              lg2 @ [(ERROR, ''Failed to load or enrich the config list.'')])
         | Inr cl \<Rightarrow>
             (Inr \<lparr>api_key = key, config_list = [''config_list'' \<mapsto> enrich key cl]\<rparr>,
              lg2 @ [(INFO, ''Config list loaded successfully''),
                     (INFO, ''Config list enriched with API key'')]))"
  by (simp add: GetConfig_init_def load_and_enrich_config_list_def load_and_enrich_body_def
      st_defs Let_def split: sum.splits)

text \<open>
  C8: \<^verbatim>\<open>GetConfig()\<close> never raises. When the configuration cannot be loaded the failure
  is logged and the result holds \<^verbatim>\<open>{'config_list': []}\<close>; when \<^verbatim>\<open>OPENAI_API_KEY\<close> is
  absent that is logged, the key is the empty string, and every loaded entry gets the
  empty string as its \<^verbatim>\<open>api_key\<close>.
\<close>

theorem GetConfig_init_degrades:
  "(\<exists>g. fst (GetConfig_init environ loader lg) = Inr g) \<and>
   (loader ''OAI_CONFIG_LIST'' [(''model'', ''gpt-4-turbo-preview'')] = Inl e \<longrightarrow>
      (\<exists>g. fst (GetConfig_init environ loader lg) = Inr g \<and>
         config_list g = [''config_list'' \<mapsto> []]) \<and>
      (ERROR, ''Failed to load or enrich the config list.'')
        \<in> set (snd (GetConfig_init environ loader lg))) \<and>
   (environ ''OPENAI_API_KEY'' = None \<and>
    loader ''OAI_CONFIG_LIST'' [(''model'', ''gpt-4-turbo-preview'')] = Inr cl \<longrightarrow>
      (\<exists>g. fst (GetConfig_init environ loader lg) = Inr g \<and> api_key g = [] \<and>
         config_list g = [''config_list'' \<mapsto> map (\<lambda>c. c(''api_key'' \<mapsto> [])) cl]) \<and>
      (ERROR, ''OPENAI_API_KEY not found in environment variables'')
        \<in> set (snd (GetConfig_init environ loader lg)))"
  by (simp add: GetConfig_init_eq Let_def enrich_def environ_get_def split: sum.splits)

theorem GetConfig_init_degrades_witness:
  "fst (GetConfig_init Map.empty (\<lambda>_ _. Inl (LibraryError ''No such file'')) []) =
     Inr \<lparr>api_key = [], config_list = [''config_list'' \<mapsto> []]\<rparr> \<and>
   (ERROR, ''Failed to load or enrich the config list.'')
     \<in> set (snd (GetConfig_init Map.empty (\<lambda>_ _. Inl (LibraryError ''No such file'')) [])) \<and>
   fst (GetConfig_init Map.empty (\<lambda>_ _. Inr [[''model'' \<mapsto> ''gpt-4-turbo-preview'']]) []) =
     Inr \<lparr>api_key = [],
          config_list = [''config_list'' \<mapsto>
            [[''model'' \<mapsto> ''gpt-4-turbo-preview'', ''api_key'' \<mapsto> []]]]\<rparr> \<and>
   (ERROR, ''OPENAI_API_KEY not found in environment variables'')
     \<in> set (snd (GetConfig_init Map.empty
                   (\<lambda>_ _. Inr [[''model'' \<mapsto> ''gpt-4-turbo-preview'']]) []))"
  using GetConfig_init_degrades [of Map.empty "\<lambda>_ _. Inl (LibraryError ''No such file'')" "[]"
      "LibraryError ''No such file''" "[]"]
    GetConfig_init_degrades [of Map.empty "\<lambda>_ _. Inr [[''model'' \<mapsto> ''gpt-4-turbo-preview'']]"
      "[]" TypeError "[[''model'' \<mapsto> ''gpt-4-turbo-preview'']]"]
  by (simp add: GetConfig_init_eq Let_def enrich_def environ_get_def)

section \<open>Properties of the termination predicate\<close>

lemma str_contains_iff: "str_contains needle hay \<longleftrightarrow> (\<exists>pre post. hay = pre @ needle @ post)"
proof (induction hay)
  case Nil
  then show ?case by auto
next
  case (Cons c cs)
  have "take (length needle) (c # cs) = needle \<longleftrightarrow> (\<exists>post. c # cs = needle @ post)"
    by (metis append_eq_conv_conj)
  moreover have "(\<exists>pre post. c # cs = pre @ needle @ post) \<longleftrightarrow>
      (\<exists>post. c # cs = needle @ post) \<or> (\<exists>pre post. cs = pre @ needle @ post)"
  proof
    assume "\<exists>pre post. c # cs = pre @ needle @ post"
    then obtain pre post where e: "c # cs = pre @ needle @ post" by blast
    show "(\<exists>post. c # cs = needle @ post) \<or> (\<exists>pre post. cs = pre @ needle @ post)"
    proof (cases pre)
      case Nil
      with e show ?thesis by auto
    next
      case (Cons x xs)
      with e have "cs = xs @ needle @ post" by simp
      then show ?thesis by blast
    qed
  next
    assume "(\<exists>post. c # cs = needle @ post) \<or> (\<exists>pre post. cs = pre @ needle @ post)"
    then show "\<exists>pre post. c # cs = pre @ needle @ post"
    proof
      assume "\<exists>post. c # cs = needle @ post"
      then obtain post where "c # cs = [] @ needle @ post" by auto
      then show ?thesis by blast
    next
      assume "\<exists>pre post. cs = pre @ needle @ post"
      then obtain pre post where "c # cs = (c # pre) @ needle @ post" by auto
      then show ?thesis by blast
    qed
  qed
  ultimately show ?case using Cons.IH by simp
qed

text \<open>
  The first part of C4, the predicate that \<^verbatim>\<open>create_user_proxy\<close> installs: on a
  message whose content is a string it returns whether \<^verbatim>\<open>TERMINATE\<close> is a substring of
  the content. When a conversation stops is decided by the agent library's
  \<^verbatim>\<open>initiate_chat\<close>, which is a parameter here; nothing is proved about it.
\<close>

lemma is_termination_msg_string:
  "m ''content'' = Some (PStr s) \<Longrightarrow>
     is_termination_msg m = Inr (\<exists>pre post. s = pre @ ''TERMINATE'' @ post)"
  by (simp add: is_termination_msg_def str_contains_iff)

lemma create_user_proxy_predicate:
  "create_user_proxy d s = (Inr up, s') \<Longrightarrow> up_is_termination_msg up = is_termination_msg"
  by (auto simp: create_user_proxy_def st_defs alogger_def outside_call_def Let_def
      split: prod.splits sum.splits)

section \<open>Properties of the orchestrator\<close>

subsection \<open>The retry of configure_agent\<close>

lemma configure_agent_not_found_step:
  assumes "not_found_created d t stream s"
  shows "configure_agent (Suc depth) d t stream s =
         configure_agent depth d t stream (snd (after_creation d t stream s))"
  using assms
  by (auto simp: not_found_created_def after_creation_def alogger_def
      split: prod.splits sum.splits)

lemma configure_agent_unroll:
  assumes "\<forall>i<k. not_found_created d t stream (retry_state d t stream s i)" and "k \<le> depth"
  shows "configure_agent depth d t stream s =
         configure_agent (depth - k) d t stream (retry_state d t stream s k)"
  using assms
proof (induction k)
  case 0
  then show ?case by simp
next
  case (Suc k)
  then have ih: "configure_agent depth d t stream s =
         configure_agent (depth - k) d t stream (retry_state d t stream s k)"
    by simp
  from Suc.prems have nf: "not_found_created d t stream (retry_state d t stream s k)"
    by simp
  from Suc.prems have dk: "depth - k = Suc (depth - Suc k)" by simp
  show ?case
    unfolding ih dk
    using configure_agent_not_found_step [OF nf] by simp
qed

lemma configure_agent_success:
  "configure_attempt d t stream s = (Inr a, s') \<Longrightarrow>
     configure_agent (Suc depth) d t stream s = (Inr a, s')"
  by simp

text \<open>
  C3, as the spec states it, fails: with an oracle that knows the assistant only after
  two creations, the first two resolutions signal not-found, the second signal triggers
  a second creation, and \<^verbatim>\<open>configure_agent\<close> returns the agent instead of failing.
\<close>

lemma flaky_retry_states:
  "retry_state flaky_deps ''BrowsingAgent'' stream start_state (Suc 0) =
     \<lparr>outside = 1,
      alogs = [(INFO, ''Configuring GPT Assistant Agent...''),
               (INFO, ''Initializing GetConfig class''),
               (ERROR, ''OPENAI_API_KEY not found in environment variables''),
               (INFO, ''Config list loaded successfully''),
               (INFO, ''Config list enriched with API key''),
               (WARNING, ''Assistant not found. Creating new assistant...'')],
      frames_out = []\<rparr>"
  "outside (retry_state flaky_deps ''BrowsingAgent'' stream start_state (Suc (Suc 0))) = 2"
  "frames_out (retry_state flaky_deps ''BrowsingAgent'' stream start_state (Suc (Suc 0))) = []"
  by (simp_all add: after_creation_def configure_attempt_def GetConfig_def GetConfig_init_eq
      dict_get_def outside_call_def alogger_def st_defs flaky_deps_def start_state_def
      Let_def enrich_def environ_get_def)

lemma flaky_attempt:
  "fst (configure_attempt flaky_deps ''BrowsingAgent'' stream s) =
     (if outside s < 2 then Inl NotFoundError
      else Inr (browsing_agent (if stream then Some True else None)))"
  "outside (snd (configure_attempt flaky_deps ''BrowsingAgent'' stream s)) = outside s"
  "frames_out (snd (configure_attempt flaky_deps ''BrowsingAgent'' stream s)) = frames_out s"
  by (simp_all add: configure_attempt_def GetConfig_def GetConfig_init_eq
      dict_get_def outside_call_def alogger_def st_defs flaky_deps_def browsing_agent_def
      Let_def enrich_def environ_get_def)

lemma flaky_creation:
  "fst (after_creation flaky_deps ''BrowsingAgent'' stream s) = Inr ()"
  "outside (snd (after_creation flaky_deps ''BrowsingAgent'' stream s)) = Suc (outside s)"
proof -
  have c: "create_agent flaky_deps = (\<lambda>_ n. (Inr (), Suc n))"
    by (simp add: flaky_deps_def)
  show "fst (after_creation flaky_deps ''BrowsingAgent'' stream s) = Inr ()"
    by (simp add: after_creation_def outside_call_def c)
  show "outside (snd (after_creation flaky_deps ''BrowsingAgent'' stream s)) = Suc (outside s)"
    by (simp add: after_creation_def outside_call_def c alogger_def flaky_attempt(2))
qed

lemma flaky_retry_outside:
  "outside (retry_state flaky_deps ''BrowsingAgent'' stream s i) = outside s + i"
  by (induction i) (simp_all add: flaky_creation)

lemma flaky_not_found:
  "\<forall>i<2. not_found_created flaky_deps ''BrowsingAgent'' stream
            (retry_state flaky_deps ''BrowsingAgent'' stream start_state i)"
  by (simp add: not_found_created_def flaky_attempt flaky_creation flaky_retry_outside
      start_state_def)

lemma flaky_third_attempt:
  "configure_attempt flaky_deps ''BrowsingAgent'' stream
     (retry_state flaky_deps ''BrowsingAgent'' stream start_state 2) =
   (Inr (browsing_agent (if stream then Some True else None)),
    snd (configure_attempt flaky_deps ''BrowsingAgent'' stream
           (retry_state flaky_deps ''BrowsingAgent'' stream start_state 2)))"
  by (simp add: prod_eq_iff flaky_attempt flaky_retry_outside start_state_def)

lemma flaky_configure_agent:
  "fst (configure_agent 1000 flaky_deps ''BrowsingAgent'' stream start_state) =
     Inr (browsing_agent (if stream then Some True else None))"
  "outside (snd (configure_agent 1000 flaky_deps ''BrowsingAgent'' stream start_state)) = 2"
proof -
  have u: "configure_agent 1000 flaky_deps ''BrowsingAgent'' stream start_state =
      configure_agent (Suc 997) flaky_deps ''BrowsingAgent'' stream
        (retry_state flaky_deps ''BrowsingAgent'' stream start_state 2)"
    using configure_agent_unroll [OF flaky_not_found, of 1000 stream] by simp
  show "fst (configure_agent 1000 flaky_deps ''BrowsingAgent'' stream start_state) =
     Inr (browsing_agent (if stream then Some True else None))"
    unfolding u configure_agent_success [OF flaky_third_attempt] by simp
  show "outside (snd (configure_agent 1000 flaky_deps ''BrowsingAgent'' stream start_state)) = 2"
    unfolding u configure_agent_success [OF flaky_third_attempt]
    by (simp add: flaky_attempt flaky_retry_outside start_state_def)
qed




subsection \<open>Only a completed output sends a frame\<close>

lemma bind_keeps_frames:
  assumes "\<And>s. frames_out (snd (m s)) = frames_out s"
    and "\<And>x s. frames_out (snd (f x s)) = frames_out s"
  shows "frames_out (snd (bind_py m f s)) = frames_out s"
proof (cases "m s")
  case (Pair r s1)
  from assms(1) [of s] Pair have s1: "frames_out s1 = frames_out s" by simp
  show ?thesis
  proof (cases r)
    case (Inl e)
    with Pair s1 show ?thesis by (simp add: bind_py_def)
  next
    case (Inr x)
    with Pair s1 assms(2) [of x s1] show ?thesis by (simp add: bind_py_def)
  qed
qed

lemma bind_failure_keeps_frames:
  assumes "\<And>s. frames_out (snd (m s)) = frames_out s"
    and "\<And>x s e s'. f x s = (Inl e, s') \<Longrightarrow> frames_out s' = frames_out s"
    and "bind_py m f s = (Inl e, s')"
  shows "frames_out s' = frames_out s"
proof (cases "m s")
  case (Pair r s1)
  from assms(1) [of s] Pair have s1: "frames_out s1 = frames_out s" by simp
  show ?thesis
  proof (cases r)
    case (Inl e1)
    with Pair s1 assms(3) show ?thesis by (simp add: bind_py_def)
  next
    case (Inr x)
    with Pair assms(3) have "f x s1 = (Inl e, s')" by (simp add: bind_py_def)
    from assms(2) [OF this] s1 show ?thesis by simp
  qed
qed

lemma outside_call_frames: "frames_out (snd (outside_call f s)) = frames_out s"
  by (simp add: outside_call_def split: prod.splits)

lemma alogger_frames: "frames_out (snd (alogger l m s)) = frames_out s"
  by (simp add: alogger_def)

lemma GetConfig_frames: "frames_out (snd (GetConfig d s)) = frames_out s"
  by (simp add: GetConfig_def split: prod.splits)

lemma dict_get_frames: "frames_out (snd (dict_get m k s)) = frames_out s"
  by (simp add: dict_get_def return_py_def raise_py_def split: option.splits)

lemma return_py_frames: "frames_out (snd (return_py x s)) = frames_out s"
  by (simp add: return_py_def)

lemmas frames_simps = outside_call_frames alogger_frames GetConfig_frames dict_get_frames
  return_py_frames

lemma configure_attempt_frames:
  "frames_out (snd (configure_attempt d t stream s)) = frames_out s"
  unfolding configure_attempt_def Let_def
  by (intro bind_keeps_frames frames_simps)

lemma configure_agent_frames:
  "frames_out (snd (configure_agent depth d t stream s)) = frames_out s"
proof (induction depth arbitrary: s)
  case 0
  show ?case by (simp add: alogger_def)
next
  case (Suc depth)
  obtain r s1 where a: "configure_attempt d t stream s = (r, s1)"
    by (cases "configure_attempt d t stream s")
  with configure_attempt_frames [of d t stream s] have s1: "frames_out s1 = frames_out s"
    by simp
  obtain r2 s3 where c: "outside_call (create_agent d t)
      (s1\<lparr>alogs := alogs s1 @ [(WARNING, ''Assistant not found. Creating new assistant...'')]\<rparr>)
      = (r2, s3)"
    by (cases "outside_call (create_agent d t)
      (s1\<lparr>alogs := alogs s1 @ [(WARNING, ''Assistant not found. Creating new assistant...'')]\<rparr>)")
  with outside_call_frames [of "create_agent d t"
      "s1\<lparr>alogs := alogs s1 @ [(WARNING, ''Assistant not found. Creating new assistant...'')]\<rparr>"]
  have s3: "frames_out s3 = frames_out s1" by simp
  show ?case
    using a c s1 s3 Suc.IH [of s3]
    by (simp add: alogger_def split: sum.splits)
qed

lemma register_functions_frames:
  "frames_out (snd (register_functions d a s)) = frames_out s"
  unfolding register_functions_def
  by (intro bind_keeps_frames frames_simps)

lemma create_user_proxy_frames:
  "frames_out (snd (create_user_proxy d s)) = frames_out s"
  unfolding create_user_proxy_def Let_def
  by (intro bind_keeps_frames frames_simps)

lemma send_output_failure:
  "send_output d r s = (Inl e, s') \<Longrightarrow> frames_out s' = frames_out s"
  by (auto simp: send_output_def bind_py_def outside_call_def split: prod.splits sum.splits)

lemma on_connect_body_failure:
  assumes "on_connect_body d s = (Inl e, s')"
  shows "frames_out s' = frames_out s"
proof -
  have 5: "frames_out s2 = frames_out s1"
    if "bind_py (outside_call (initiate_chat d up a m)) (\<lambda>r. send_output d r) s1 = (Inl e1, s2)"
    for up a m s1 e1 s2
    using outside_call_frames send_output_failure that
    by (rule bind_failure_keeps_frames)
  have 4: "frames_out s2 = frames_out s1"
    if "bind_py (create_user_proxy d) (\<lambda>up.
          bind_py (outside_call (initiate_chat d up a m)) (\<lambda>r. send_output d r)) s1 = (Inl e1, s2)"
    for a m s1 e1 s2
    using create_user_proxy_frames 5 that
    by (rule bind_failure_keeps_frames)
  have 3: "frames_out s2 = frames_out s1"
    if "bind_py (register_functions d a) (\<lambda>a'. bind_py (create_user_proxy d) (\<lambda>up.
          bind_py (outside_call (initiate_chat d up a' m)) (\<lambda>r. send_output d r))) s1
        = (Inl e1, s2)"
    for a m s1 e1 s2
    using register_functions_frames 4 that
    by (rule bind_failure_keeps_frames)
  have 2: "frames_out s2 = frames_out s1"
    if "bind_py (configure_agent (recursion_limit d) d ''BrowsingAgent'' True) (\<lambda>a.
          bind_py (register_functions d a) (\<lambda>a'. bind_py (create_user_proxy d) (\<lambda>up.
          bind_py (outside_call (initiate_chat d up a' m)) (\<lambda>r. send_output d r)))) s1
        = (Inl e1, s2)"
    for m s1 e1 s2
    using configure_agent_frames 3 that
    by (rule bind_failure_keeps_frames)
  from assms show ?thesis
    unfolding on_connect_body_def
    using outside_call_frames 2
    by (rule bind_failure_keeps_frames [rotated 2])
qed

subsection \<open>The synchronous adapter\<close>

text \<open>
  C5: \<^verbatim>\<open>get_response\<close> either returns \<^verbatim>\<open>{"response": r}\<close> or raises
  \<^verbatim>\<open>HTTPException(500, "Internal Server Error")\<close>, nothing else. When configuration,
  registration, the proxy and the conversation all return, it returns the conversation's
  result \<open>r\<close>. When any of them raises an exception \<open>e\<close>, what the caller gets is the fixed
  500 error: \<open>e\<close> goes to the log only.
\<close>

theorem get_response_generic_failure:
  "((\<exists>r. fst (get_response d req s) = Inr \<lparr>response = r\<rparr>) \<or>
    fst (get_response d req s) = Inl (HTTPException 500 ''Internal Server Error'')) \<and>
   (configure_agent (recursion_limit d) d ''BrowsingAgent'' False s = (Inr a, s1) \<and>
    register_functions d a s1 = (Inr a', s2) \<and>
    create_user_proxy d s2 = (Inr up, s3) \<and>
    outside_call (initiate_chat d up a' (prompt req)) s3 = (Inr r, s4) \<longrightarrow>
      get_response d req s = (Inr \<lparr>response = r\<rparr>, s4)) \<and>
   (get_response_body d req s = (Inl e, s') \<longrightarrow>
      get_response d req s =
        (Inl (HTTPException 500 ''Internal Server Error''),
         s'\<lparr>alogs := alogs s' @ [(ERROR, ''An error occurred: '' @ exception_str d e)]\<rparr>)) \<and>
   (fst (configure_agent (recursion_limit d) d ''BrowsingAgent'' False s) = Inl e \<longrightarrow>
      fst (get_response d req s) = Inl (HTTPException 500 ''Internal Server Error'')) \<and>
   (configure_agent (recursion_limit d) d ''BrowsingAgent'' False s = (Inr a, s1) \<and>
    fst (register_functions d a s1) = Inl e \<longrightarrow>
      fst (get_response d req s) = Inl (HTTPException 500 ''Internal Server Error'')) \<and>
   (configure_agent (recursion_limit d) d ''BrowsingAgent'' False s = (Inr a, s1) \<and>
    register_functions d a s1 = (Inr a', s2) \<and>
    create_user_proxy d s2 = (Inr up, s3) \<and>
    fst (outside_call (initiate_chat d up a' (prompt req)) s3) = Inl e \<longrightarrow>
      fst (get_response d req s) = Inl (HTTPException 500 ''Internal Server Error''))"
proof (intro conjI impI)
  show "(\<exists>r. fst (get_response d req s) = Inr \<lparr>response = r\<rparr>) \<or>
    fst (get_response d req s) = Inl (HTTPException 500 ''Internal Server Error'')"
  proof (cases "get_response_body d req s")
    case (Pair res s0)
    show ?thesis
    proof (cases res)
      case (Inl e0)
      with Pair show ?thesis
        by (simp add: get_response_def try_except_def bind_py_def alogger_def raise_py_def)
    next
      case (Inr b)
      obtain r where "b = \<lparr>response = r\<rparr>" by (cases b) simp
      with Inr Pair show ?thesis
        by (simp add: get_response_def try_except_def)
    qed
  qed
next
  assume "configure_agent (recursion_limit d) d ''BrowsingAgent'' False s = (Inr a, s1) \<and>
    register_functions d a s1 = (Inr a', s2) \<and>
    create_user_proxy d s2 = (Inr up, s3) \<and>
    outside_call (initiate_chat d up a' (prompt req)) s3 = (Inr r, s4)"
  then show "get_response d req s = (Inr \<lparr>response = r\<rparr>, s4)"
    by (simp add: get_response_def get_response_body_def try_except_def bind_py_def
        return_py_def)
next
  assume "get_response_body d req s = (Inl e, s')"
  then show "get_response d req s =
        (Inl (HTTPException 500 ''Internal Server Error''),
         s'\<lparr>alogs := alogs s' @ [(ERROR, ''An error occurred: '' @ exception_str d e)]\<rparr>)"
    by (simp add: get_response_def try_except_def bind_py_def alogger_def raise_py_def)
next
  assume "fst (configure_agent (recursion_limit d) d ''BrowsingAgent'' False s) = Inl e"
  then show "fst (get_response d req s) = Inl (HTTPException 500 ''Internal Server Error'')"
    by (auto simp: get_response_def get_response_body_def try_except_def bind_py_def
        alogger_def raise_py_def return_py_def split: prod.splits sum.splits)
next
  assume "configure_agent (recursion_limit d) d ''BrowsingAgent'' False s = (Inr a, s1) \<and>
    fst (register_functions d a s1) = Inl e"
  then show "fst (get_response d req s) = Inl (HTTPException 500 ''Internal Server Error'')"
    by (auto simp: get_response_def get_response_body_def try_except_def bind_py_def
        alogger_def raise_py_def return_py_def split: prod.splits sum.splits)
next
  assume "configure_agent (recursion_limit d) d ''BrowsingAgent'' False s = (Inr a, s1) \<and>
    register_functions d a s1 = (Inr a', s2) \<and>
    create_user_proxy d s2 = (Inr up, s3) \<and>
    fst (outside_call (initiate_chat d up a' (prompt req)) s3) = Inl e"
  then show "fst (get_response d req s) = Inl (HTTPException 500 ''Internal Server Error'')"
    by (auto simp: get_response_def get_response_body_def try_except_def bind_py_def
        alogger_def raise_py_def return_py_def split: prod.splits sum.splits)
qed

subsection \<open>The streaming adapter\<close>

text \<open>
  C10: \<^verbatim>\<open>on_connect\<close> never raises. When anything inside its \<^verbatim>\<open>try\<close> raises (reading
  the first message, resolving the identity, registering the functions, the conversation,
  the output itself), it returns normally and has sent no frame; and once the handshake
  \<^verbatim>\<open>websocket.accept()\<close> has returned, the endpoint returns normally as well.
\<close>

theorem on_connect_swallows_exceptions:
  "fst (on_connect d s) = Inr () \<and>
   (on_connect_body d s = (Inl e, s') \<longrightarrow>
      on_connect d s = (Inr (), s') \<and> frames_out s' = frames_out s) \<and>
   (fst (outside_call (websocket_accept d) s) = Inr () \<longrightarrow>
      fst (websocket_endpoint d s) = Inr ())"
proof (intro conjI impI)
  show "fst (on_connect d s) = Inr ()"
    by (simp add: on_connect_def try_except_def return_py_def split: prod.splits sum.splits)
next
  assume "on_connect_body d s = (Inl e, s')"
  then show "on_connect d s = (Inr (), s')"
    by (simp add: on_connect_def try_except_def return_py_def)
next
  assume "on_connect_body d s = (Inl e, s')"
  then show "frames_out s' = frames_out s" by (rule on_connect_body_failure)
next
  assume "fst (outside_call (websocket_accept d) s) = Inr ()"
  then show "fst (websocket_endpoint d s) = Inr ()"
    by (auto simp: websocket_endpoint_def bind_py_def on_connect_def try_except_def
        return_py_def split: prod.splits sum.splits)
qed

subsection \<open>The adapters on the example collaborators\<close>

lemma bind_py_alt:
  "bind_py m f s =
     (case fst (m s) of Inl e \<Rightarrow> (Inl e, snd (m s)) | Inr x \<Rightarrow> f x (snd (m s)))"
  by (simp add: bind_py_def split: prod.splits sum.splits)

text \<open>\<^verbatim>\<open>configure_agent\<close> reads neither the conversation nor the registration.\<close>

lemma configure_agent_initiate_chat:
  "configure_agent n (d\<lparr>initiate_chat := c\<rparr>) t stream s = configure_agent n d t stream s"
proof (induction n arbitrary: s)
  case 0
  show ?case by simp
next
  case (Suc n)
  have "GetConfig (d\<lparr>initiate_chat := c\<rparr>) = GetConfig d"
    by (rule ext) (simp add: GetConfig_def)
  then have "configure_attempt (d\<lparr>initiate_chat := c\<rparr>) t stream = configure_attempt d t stream"
    by (simp add: configure_attempt_def)
  with Suc show ?case
    by (simp add: outside_call_def alogger_def split: prod.splits sum.splits)
qed

lemma configure_agent_register_function:
  "configure_agent n (d\<lparr>register_function := c\<rparr>) t stream s = configure_agent n d t stream s"
proof (induction n arbitrary: s)
  case 0
  show ?case by simp
next
  case (Suc n)
  have "GetConfig (d\<lparr>register_function := c\<rparr>) = GetConfig d"
    by (rule ext) (simp add: GetConfig_def)
  then have "configure_attempt (d\<lparr>register_function := c\<rparr>) t stream = configure_attempt d t stream"
    by (simp add: configure_attempt_def)
  with Suc show ?case
    by (simp add: outside_call_def alogger_def split: prod.splits sum.splits)
qed

lemma configure_agent_first_error:
  assumes "fst (configure_attempt d t stream s) = Inl e" and "e \<noteq> NotFoundError"
  shows "fst (configure_agent (Suc n) d t stream s) = Inl e"
  using assms by (auto simp: alogger_def split: prod.splits sum.splits)

lemmas stage_defs = register_functions_def create_user_proxy_def send_output_def
  outside_call_def alogger_def st_defs Let_def

lemma example_limits:
  "recursion_limit flaky_deps = 1000"
  "recursion_limit broken_chat_deps = 1000"
  "recursion_limit no_register_deps = 1000"
  "recursion_limit no_store_deps = 1000"
  by (simp_all add: flaky_deps_def broken_chat_deps_def no_register_deps_def no_store_deps_def)

lemma example_configure:
  "fst (configure_agent 1000 broken_chat_deps ''BrowsingAgent'' stream start_state) =
     Inr (browsing_agent (if stream then Some True else None))"
  "fst (configure_agent 1000 no_register_deps ''BrowsingAgent'' stream start_state) =
     Inr (browsing_agent (if stream then Some True else None))"
  "fst (configure_agent 1000 no_store_deps ''BrowsingAgent'' stream s) =
     Inl (KeyError ''BrowsingAgent'')"
proof -
  show "fst (configure_agent 1000 broken_chat_deps ''BrowsingAgent'' stream start_state) =
     Inr (browsing_agent (if stream then Some True else None))"
    by (simp add: broken_chat_deps_def configure_agent_initiate_chat flaky_configure_agent)
  show "fst (configure_agent 1000 no_register_deps ''BrowsingAgent'' stream start_state) =
     Inr (browsing_agent (if stream then Some True else None))"
    by (simp add: no_register_deps_def configure_agent_register_function flaky_configure_agent)
  have "fst (configure_attempt no_store_deps ''BrowsingAgent'' stream s) =
      Inl (KeyError ''BrowsingAgent'')"
    by (simp add: configure_attempt_def outside_call_def alogger_def st_defs no_store_deps_def
        flaky_deps_def)
  from configure_agent_first_error [OF this, of 999]
  show "fst (configure_agent 1000 no_store_deps ''BrowsingAgent'' stream s) =
     Inl (KeyError ''BrowsingAgent'')"
    by simp
qed

lemma example_register:
  "fst (register_functions flaky_deps a s) = Inr (a\<lparr>g_function_map := function_map\<rparr>)"
  "fst (register_functions broken_chat_deps a s) = Inr (a\<lparr>g_function_map := function_map\<rparr>)"
  "fst (register_functions no_register_deps a s) = Inl TypeError"
  by (simp_all add: stage_defs flaky_deps_def broken_chat_deps_def no_register_deps_def)

lemma example_proxy:
  "fst (create_user_proxy flaky_deps s) = Inr the_user_proxy"
  "fst (create_user_proxy broken_chat_deps s) = Inr the_user_proxy"
  by (simp_all add: stage_defs flaky_deps_def broken_chat_deps_def the_user_proxy_def)

lemma example_chat:
  "fst (outside_call (initiate_chat flaky_deps up a m) s) = Inr ''It is 15 degrees. TERMINATE''"
  "fst (outside_call (initiate_chat broken_chat_deps up a m) s) =
     Inl (LibraryError ''rate limit exceeded'')"
  by (simp_all add: outside_call_def flaky_deps_def broken_chat_deps_def)

lemma example_input:
  "outside_call (iostream_input flaky_deps) start_state =
     (Inr ''find the weather in Paris'', start_state)"
  "outside_call (iostream_input broken_chat_deps) start_state =
     (Inr ''find the weather in Paris'', start_state)"
  "outside_call (iostream_input no_register_deps) start_state =
     (Inr ''find the weather in Paris'', start_state)"
  "outside_call (iostream_input no_store_deps) start_state =
     (Inr ''find the weather in Paris'', start_state)"
  by (simp_all add: outside_call_def flaky_deps_def broken_chat_deps_def no_register_deps_def
      no_store_deps_def start_state_def)

lemma example_output:
  "fst (send_output flaky_deps r s) = Inr ()"
  "frames_out (snd (send_output flaky_deps r s)) = frames_out s @ [r]"
  by (simp_all add: stage_defs flaky_deps_def)

lemmas example_stages = example_limits example_configure flaky_configure_agent
  example_register example_proxy example_chat example_input

lemma example_bodies:
  "fst (get_response_body flaky_deps weather_request start_state) =
     Inr \<lparr>response = ''It is 15 degrees. TERMINATE''\<rparr>"
  "fst (get_response_body no_store_deps weather_request start_state) =
     Inl (KeyError ''BrowsingAgent'')"
  "fst (get_response_body no_register_deps weather_request start_state) = Inl TypeError"
  "fst (get_response_body broken_chat_deps weather_request start_state) =
     Inl (LibraryError ''rate limit exceeded'')"
  "fst (on_connect_body no_store_deps start_state) = Inl (KeyError ''BrowsingAgent'')"
  "fst (on_connect_body no_register_deps start_state) = Inl TypeError"
  "fst (on_connect_body broken_chat_deps start_state) =
     Inl (LibraryError ''rate limit exceeded'')"
  by (simp_all add: get_response_body_def on_connect_body_def bind_py_alt return_py_def
      example_stages)

theorem get_response_generic_failure_witness:
  "fst (get_response flaky_deps weather_request start_state) =
     Inr \<lparr>response = ''It is 15 degrees. TERMINATE''\<rparr> \<and>
   fst (get_response_body no_store_deps weather_request start_state) =
     Inl (KeyError ''BrowsingAgent'') \<and>
   fst (get_response no_store_deps weather_request start_state) =
     Inl (HTTPException 500 ''Internal Server Error'') \<and>
   last (alogs (snd (get_response no_store_deps weather_request start_state))) =
     (ERROR, ''An error occurred: '' @ [CHR 0x27] @ ''BrowsingAgent'' @ [CHR 0x27]) \<and>
   fst (get_response_body no_register_deps weather_request start_state) = Inl TypeError \<and>
   fst (get_response no_register_deps weather_request start_state) =
     Inl (HTTPException 500 ''Internal Server Error'') \<and>
   fst (get_response_body broken_chat_deps weather_request start_state) =
     Inl (LibraryError ''rate limit exceeded'') \<and>
   fst (get_response broken_chat_deps weather_request start_state) =
     Inl (HTTPException 500 ''Internal Server Error'')"
proof -
  let ?a = "browsing_agent None"
  let ?a' = "(browsing_agent None)\<lparr>g_function_map := function_map\<rparr>"
  let ?r = "''It is 15 degrees. TERMINATE''"
  obtain s1 where 1: "configure_agent (recursion_limit flaky_deps) flaky_deps ''BrowsingAgent''
      False start_state = (Inr ?a, s1)"
    using flaky_configure_agent(1) [of False]
    by (cases "configure_agent (recursion_limit flaky_deps) flaky_deps ''BrowsingAgent''
      False start_state") (simp add: example_limits)
  obtain s2 where 2: "register_functions flaky_deps ?a s1 = (Inr ?a', s2)"
    using example_register(1) [of ?a s1]
    by (cases "register_functions flaky_deps ?a s1") simp
  obtain s3 where 3: "create_user_proxy flaky_deps s2 = (Inr the_user_proxy, s3)"
    using example_proxy(1) [of s2] by (cases "create_user_proxy flaky_deps s2") simp
  obtain s4 where 4: "outside_call (initiate_chat flaky_deps the_user_proxy ?a'
      (prompt weather_request)) s3 = (Inr ?r, s4)"
    using example_chat(1) [of the_user_proxy ?a' "prompt weather_request" s3]
    by (cases "outside_call (initiate_chat flaky_deps the_user_proxy ?a'
      (prompt weather_request)) s3") simp
  have ok: "fst (get_response flaky_deps weather_request start_state) = Inr \<lparr>response = ?r\<rparr>"
    using get_response_generic_failure [of flaky_deps weather_request start_state ?a s1 ?a' s2
        the_user_proxy s3 ?r s4] 1 2 3 4
    by simp
  obtain t1 where 5: "get_response_body no_store_deps weather_request start_state =
      (Inl (KeyError ''BrowsingAgent''), t1)"
    using example_bodies(2)
    by (cases "get_response_body no_store_deps weather_request start_state") simp
  have ko1: "get_response no_store_deps weather_request start_state =
      (Inl (HTTPException 500 ''Internal Server Error''),
       t1\<lparr>alogs := alogs t1 @ [(ERROR, ''An error occurred: '' @
            exception_str no_store_deps (KeyError ''BrowsingAgent''))]\<rparr>)"
    using get_response_generic_failure [of no_store_deps weather_request start_state
        _ _ _ _ _ _ _ _ "KeyError ''BrowsingAgent''" t1] 5
    by simp
  obtain t2 where 6: "get_response_body no_register_deps weather_request start_state =
      (Inl TypeError, t2)"
    using example_bodies(3)
    by (cases "get_response_body no_register_deps weather_request start_state") simp
  have ko2: "fst (get_response no_register_deps weather_request start_state) =
      Inl (HTTPException 500 ''Internal Server Error'')"
    using get_response_generic_failure [of no_register_deps weather_request start_state
        _ _ _ _ _ _ _ _ TypeError t2] 6
    by simp
  obtain t3 where 7: "get_response_body broken_chat_deps weather_request start_state =
      (Inl (LibraryError ''rate limit exceeded''), t3)"
    using example_bodies(4)
    by (cases "get_response_body broken_chat_deps weather_request start_state") simp
  have ko3: "fst (get_response broken_chat_deps weather_request start_state) =
      Inl (HTTPException 500 ''Internal Server Error'')"
    using get_response_generic_failure [of broken_chat_deps weather_request start_state
        _ _ _ _ _ _ _ _ "LibraryError ''rate limit exceeded''" t3] 7
    by simp
  have str: "exception_str no_store_deps = example_str"
    by (simp add: no_store_deps_def flaky_deps_def)
  show ?thesis
    using ok ko1 ko2 ko3 example_bodies(2,3,4)
    by (simp add: str)
qed

theorem on_connect_swallows_exceptions_witness:
  "fst (on_connect_body no_store_deps start_state) = Inl (KeyError ''BrowsingAgent'') \<and>
   fst (on_connect no_store_deps start_state) = Inr () \<and>
   frames_out (snd (on_connect no_store_deps start_state)) = [] \<and>
   fst (on_connect_body no_register_deps start_state) = Inl TypeError \<and>
   fst (on_connect no_register_deps start_state) = Inr () \<and>
   frames_out (snd (on_connect no_register_deps start_state)) = [] \<and>
   fst (on_connect_body broken_chat_deps start_state) =
     Inl (LibraryError ''rate limit exceeded'') \<and>
   fst (on_connect broken_chat_deps start_state) = Inr () \<and>
   frames_out (snd (on_connect broken_chat_deps start_state)) = [] \<and>
   fst (outside_call (websocket_accept broken_chat_deps) start_state) = Inr () \<and>
   fst (websocket_endpoint broken_chat_deps start_state) = Inr ()"
proof -
  have f: "frames_out start_state = []" by (simp add: start_state_def)
  obtain t1 where 1: "on_connect_body no_store_deps start_state =
      (Inl (KeyError ''BrowsingAgent''), t1)"
    using example_bodies(5) by (cases "on_connect_body no_store_deps start_state") simp
  obtain t2 where 2: "on_connect_body no_register_deps start_state = (Inl TypeError, t2)"
    using example_bodies(6) by (cases "on_connect_body no_register_deps start_state") simp
  obtain t3 where 3: "on_connect_body broken_chat_deps start_state =
      (Inl (LibraryError ''rate limit exceeded''), t3)"
    using example_bodies(7) by (cases "on_connect_body broken_chat_deps start_state") simp
  have a: "fst (outside_call (websocket_accept broken_chat_deps) start_state) = Inr ()"
    by (simp add: outside_call_def broken_chat_deps_def flaky_deps_def)
  show ?thesis
    using on_connect_swallows_exceptions [of no_store_deps start_state
        "KeyError ''BrowsingAgent''" t1]
      on_connect_swallows_exceptions [of no_register_deps start_state TypeError t2]
      on_connect_swallows_exceptions [of broken_chat_deps start_state
        "LibraryError ''rate limit exceeded''" t3]
      1 2 3 a f
    by simp
qed

text \<open>When nothing fails, the streaming adapter sends the conversation's result as one frame.\<close>

lemma try_except_alt:
  "try_except m h s =
     (case fst (m s) of Inl e \<Rightarrow> h e (snd (m s)) | Inr x \<Rightarrow> (Inr x, snd (m s)))"
  by (simp add: try_except_def split: prod.splits sum.splits)

lemma on_connect_sends_result:
  "fst (on_connect flaky_deps start_state) = Inr () \<and>
   frames_out (snd (on_connect flaky_deps start_state)) = [''It is 15 degrees. TERMINATE'']"
proof -
  have f: "frames_out start_state = []" by (simp add: start_state_def)
  have b: "fst (on_connect_body flaky_deps start_state) = Inr ()"
    by (simp add: on_connect_body_def bind_py_alt example_stages example_output)
  have "frames_out (snd (on_connect_body flaky_deps start_state)) =
      [''It is 15 degrees. TERMINATE'']"
    by (simp add: on_connect_body_def bind_py_alt example_stages example_output
        configure_agent_frames register_functions_frames create_user_proxy_frames
        outside_call_frames f)
  with b show ?thesis
    by (simp add: on_connect_def try_except_alt)
qed


end
